theory Spec2Isabelle
  imports Complex_Main
begin

section \<open>Calendar arithmetic of the platform\<close>

text \<open>
  Instants are integers, the milliseconds since 1970-01-01T00:00:00Z that \<open>Date.now()\<close>
  returns. A \<open>Date\<close> splits an instant into a day number (days since the epoch) and the
  time within the day; its calendar is the proleptic Gregorian one. The two functions
  below are the day-number conversions behind \<open>getUTCFullYear\<close>, \<open>getUTCMonth\<close>,
  \<open>getUTCDate\<close> and \<open>Date.UTC\<close>; months count from 1 here.
\<close>

definition msPerDay :: int where
  "msPerDay = 86400000"

definition civil_from_days :: "int \<Rightarrow> int \<times> int \<times> int" where
  "civil_from_days z0 =
     (let z = z0 + 719468;
          era = z div 146097;
          doe = z mod 146097;
          yoe = (doe - doe div 1460 + doe div 36524 - doe div 146096) div 365;
          doy = doe - (365 * yoe + yoe div 4 - yoe div 100);
          mp = (5 * doy + 2) div 153;
          d = doy - (153 * mp + 2) div 5 + 1;
          m = (if mp < 10 then mp + 3 else mp - 9);
          y = yoe + era * 400
      in (if m \<le> 2 then y + 1 else y, m, d))"

definition days_from_civil :: "int \<Rightarrow> int \<Rightarrow> int \<Rightarrow> int" where
  "days_from_civil y0 m d =
     (let y = (if m \<le> 2 then y0 - 1 else y0);
          era = y div 400;
          yoe = y mod 400;
          doy = (153 * (if m > 2 then m - 3 else m + 9) + 2) div 5 + d - 1;
          doe = yoe * 365 + yoe div 4 - yoe div 100 + doy
      in era * 146097 + doe - 719468)"

subsection \<open>Numbers as text\<close>

definition digit_char :: "nat \<Rightarrow> char" where
  "digit_char n = ''0123456789'' ! (n mod 10)"

fun decimal :: "nat \<Rightarrow> string" where
  "decimal n = (if n < 10 then [digit_char n] else decimal (n div 10) @ [digit_char (n mod 10)])"

declare decimal.simps [simp del]

text \<open>The text of an integer inside a template literal: \<open>`${y}`\<close>.\<close>

definition int_text :: "int \<Rightarrow> string" where
  "int_text i = (if i < 0 then CHR ''-'' # decimal (nat (- i)) else decimal (nat i))"

text \<open>\<open>s.padStart(2, "0")\<close>.\<close>

definition padStart2 :: "string \<Rightarrow> string" where
  "padStart2 s = replicate (2 - length s) CHR ''0'' @ s"

text \<open>The key \<open>`${y}-${m}-${d}`\<close> with month and day padded to two digits.\<close>

definition formatKey :: "int \<times> int \<times> int \<Rightarrow> string" where
  "formatKey ymd = (case ymd of (y, m, d) \<Rightarrow>
     int_text y @ ''-'' @ padStart2 (int_text m) @ ''-'' @ padStart2 (int_text d))"

subsection \<open>Date keys of the main page\<close>

text \<open>
  \<open>toDateKeyInTokyo\<close> formats the instant in the zone Asia/Tokyo, which is UTC+9 without
  daylight saving (540 minutes): year numeric, month and day two digits.
\<close>

definition tokyoOffsetMinutes :: int where
  "tokyoOffsetMinutes = 540"

definition toDateKeyInTokyo :: "int \<Rightarrow> string" where
  "toDateKeyInTokyo now = formatKey (civil_from_days ((now + tokyoOffsetMinutes * 60000) div msPerDay))"

definition getTodayKey :: "int \<Rightarrow> string" where
  "getTodayKey now = toDateKeyInTokyo now"

text \<open>\<open>dateKey.split("-")\<close>.\<close>

fun split_dash :: "string \<Rightarrow> string list" where
  "split_dash [] = [[]]"
| "split_dash (c # cs) =
     (if c = CHR ''-'' then [] # split_dash cs
      else (case split_dash cs of p # ps \<Rightarrow> (c # p) # ps | [] \<Rightarrow> [[c]]))"

definition isDigit :: "char \<Rightarrow> bool" where
  "isDigit c = (c \<in> set ''0123456789'')"

text \<open>The value of a digit: its place in the row of digits.\<close>

definition digit_val :: "char \<Rightarrow> nat" where
  "digit_val c = length (takeWhile (\<lambda>d. d \<noteq> c) ''0123456789'')"

text \<open>
  \<open>Number(text)\<close> on the pieces of a date key. The keys of this program are written by
  \<open>toDateKeyInTokyo\<close> and \<open>getYesterdayKey\<close>, so the pieces are runs of decimal digits; the
  empty text is 0; a missing piece (\<open>undefined\<close>) and any other text count as \<open>NaN\<close>, which
  is \<open>None\<close> here.
\<close>

definition Number_text :: "string option \<Rightarrow> int option" where
  "Number_text t = (case t of
       None \<Rightarrow> None
     | Some s \<Rightarrow> if list_all isDigit s
                then Some (int (foldl (\<lambda>acc c. 10 * acc + digit_val c) 0 s))
                else None)"

definition nth_opt :: "'a list \<Rightarrow> nat \<Rightarrow> 'a option" where
  "nth_opt xs i = (if i < length xs then Some (xs ! i) else None)"

text \<open>
  \<open>Date.UTC(year, month - 1, day)\<close> as a day number: years 0 to 99 mean 1900 to 1999, a
  month index outside 0..11 carries into the year, the day counts on from the first of the
  month. \<open>TimeClip\<close> makes an instant beyond 8.64e15 ms an invalid date (\<open>None\<close>).
\<close>

definition timeClipDays :: "int \<Rightarrow> int option" where
  "timeClipDays days = (if \<bar>days * msPerDay\<bar> \<le> 8640000000000000 then Some days else None)"

definition Date_UTC_days :: "int \<Rightarrow> int \<Rightarrow> int \<Rightarrow> int option" where
  "Date_UTC_days year monthIndex day =
     (let yr = (if 0 \<le> year \<and> year \<le> 99 then 1900 + year else year);
          ym = yr + monthIndex div 12;
          mn = monthIndex mod 12
      in timeClipDays (days_from_civil ym (mn + 1) 1 + day - 1))"

definition fromDateKeyToUtcDate :: "string \<Rightarrow> int option" where
  "fromDateKeyToUtcDate dateKey =
     (let parts = split_dash dateKey in
      case (Number_text (nth_opt parts 0), Number_text (nth_opt parts 1), Number_text (nth_opt parts 2)) of
        (Some year, Some month, Some day) \<Rightarrow> Date_UTC_days year (month - 1) day
      | _ \<Rightarrow> None)"

text \<open>
  \<open>getYesterdayKey\<close> of the main page: \<open>setUTCDate(getUTCDate() - 1)\<close> steps one day back
  in the calendar. On an invalid date every getter is \<open>NaN\<close> and the key reads
  \<open>NaN-NaN-NaN\<close>.
\<close>

definition getYesterdayKey :: "string \<Rightarrow> string" where
  "getYesterdayKey todayKey =
     (case fromDateKeyToUtcDate todayKey of
        None \<Rightarrow> ''NaN-NaN-NaN''
      | Some days \<Rightarrow>
          (case timeClipDays (days - 1) of
             None \<Rightarrow> ''NaN-NaN-NaN''
           | Some y \<Rightarrow> formatKey (civil_from_days y)))"

text \<open>\<open>getUTCDay\<close>: 1970-01-01 was a Thursday (4); Sunday is 0.\<close>

definition isWeekend :: "string \<Rightarrow> bool" where
  "isWeekend dateKey =
     (case fromDateKeyToUtcDate dateKey of
        None \<Rightarrow> False
      | Some days \<Rightarrow> (let day = (days + 4) mod 7 in day = 0 \<or> day = 6))"

subsection \<open>Date key of the settings page\<close>

text \<open>
  The settings page reads \<open>getFullYear\<close>, \<open>getMonth\<close> and \<open>getDate\<close>: the calendar fields
  of the instant in the local zone of the device. \<open>localOffsetMinutes\<close> is that zone's
  offset from UTC at the instant, in minutes east.
\<close>

definition settingsPage_getTodayKey :: "int \<Rightarrow> int \<Rightarrow> string" where
  "settingsPage_getTodayKey localOffsetMinutes now =
     formatKey (civil_from_days ((now + localOffsetMinutes * 60000) div msPerDay))"

subsection \<open>Day numbers and keys\<close>

text \<open>The date key of a day number.\<close>

definition dayKey :: "int \<Rightarrow> string" where
  "dayKey z = formatKey (civil_from_days z)"

text \<open>
  For the round trip of the two day-number conversions: the numerator from which
  \<open>civil_from_days\<close> takes the year of the era, the first day of a year of the era, and
  the check that the numerators of the first and of the last day of a year fall into that
  year, run over the years below a bound.
\<close>

definition scaledDay :: "int \<Rightarrow> int" where
  "scaledDay doe = doe - doe div 1460 + doe div 36524 - doe div 146096"

definition yearStart :: "int \<Rightarrow> int" where
  "yearStart k = 365 * k + k div 4 - k div 100 + k div 400"

definition yearChecked :: "int \<Rightarrow> bool" where
  "yearChecked k = (365 * k \<le> scaledDay (yearStart k) \<and> scaledDay (yearStart (k + 1) - 1) \<le> 365 * k + 364)"

fun yearsChecked :: "nat \<Rightarrow> bool" where
  "yearsChecked 0 = True"
| "yearsChecked (Suc n) = (yearChecked (int n) \<and> yearsChecked n)"

text \<open>The number a run of digits stands for.\<close>

definition digitsValue :: "string \<Rightarrow> nat" where
  "digitsValue s = foldl (\<lambda>acc c. 10 * acc + digit_val c) 0 s"

section \<open>Stored values\<close>

text \<open>
  What \<open>JSON.parse\<close> can give back. A number is a finite value or one of the two
  infinities (\<open>1e999\<close> parses to \<open>Infinity\<close>); \<open>NaN\<close> has no JSON text. Finite values are
  rationals, which every finite double is.
\<close>

datatype jsnum = Fin rat | PosInf | NegInf

datatype json =
    JNull
  | JBool bool
  | JNum jsnum
  | JStr string
  | JArr "json list"
  | JObj "(string \<times> json) list"

text \<open>
  The item of a storage key: absent (\<open>getItem\<close> gives \<open>null\<close>, or the empty text, which
  \<open>!raw\<close> treats alike), a text that \<open>JSON.parse\<close> rejects, or a parsed value. Without a
  \<open>window\<close> the loaders return the defaults, as for an absent item.
\<close>

datatype stored = NoItem | Unparsable | Parsed json

text \<open>
  Reading a property of a parsed value other than \<open>null\<close>; \<open>None\<close> is \<open>undefined\<close>. Of a
  repeated key \<open>JSON.parse\<close> keeps the last value. Numbers, texts, booleans and arrays
  have none of the properties the loaders read.
\<close>

fun getProp :: "json \<Rightarrow> string \<Rightarrow> json option" where
  "getProp (JObj kvs) k = map_of (rev kvs) k"
| "getProp _ k = None"

text \<open>\<open>Boolean(v)\<close>, and the truthiness test of \<open>&&\<close>.\<close>

fun truthy :: "json \<Rightarrow> bool" where
  "truthy JNull = False"
| "truthy (JBool b) = b"
| "truthy (JNum (Fin q)) = (q \<noteq> 0)"
| "truthy (JNum _) = True"
| "truthy (JStr s) = (s \<noteq> [])"
| "truthy (JArr _) = True"
| "truthy (JObj _) = True"

definition Boolean_js :: "json option \<Rightarrow> bool" where
  "Boolean_js v = (case v of None \<Rightarrow> False | Some x \<Rightarrow> truthy x)"

datatype js_error = TypeError

text \<open>
  \<open>ToString\<close>, which \<open>RegExp.prototype.test\<close> applies to its argument; a result is an
  exception (\<open>Inl\<close>) or a text. An integral number below 1e21 in size prints its decimal
  digits. Every other finite number prints with a fraction point or an exponent; that text
  is not spelled out and is \<open>None\<close>. An array prints its elements in order, joined by
  commas, \<open>null\<close> elements as the empty text. An object is converted by its \<open>toString\<close>
  and then its \<open>valueOf\<close>: the inherited \<open>toString\<close> gives \<open>[object Object]\<close>; an own
  \<open>toString\<close> property of a parsed object is never a function, the \<open>valueOf\<close> after it
  gives no primitive either, and the conversion throws a \<open>TypeError\<close>.
\<close>

definition numToString :: "jsnum \<Rightarrow> string option" where
  "numToString n = (case n of
       PosInf \<Rightarrow> Some ''Infinity''
     | NegInf \<Rightarrow> Some ''-Infinity''
     | Fin q \<Rightarrow> if q = of_int \<lfloor>q\<rfloor> \<and> \<bar>q\<bar> < 10 ^ 21 then Some (int_text \<lfloor>q\<rfloor>) else None)"

fun join_comma :: "(js_error + string option) list \<Rightarrow> js_error + string option" where
  "join_comma [] = Inr (Some [])"
| "join_comma [x] = x"
| "join_comma (x # y # ys) =
     (case x of
        Inl e \<Rightarrow> Inl e
      | Inr a \<Rightarrow>
          (case join_comma (y # ys) of
             Inl e \<Rightarrow> Inl e
           | Inr b \<Rightarrow>
               Inr (case (a, b) of
                      (Some s, Some t) \<Rightarrow> Some (s @ '','' @ t)
                    | _ \<Rightarrow> None)))"

fun jsToString :: "json \<Rightarrow> js_error + string option" where
  "jsToString JNull = Inr (Some ''null'')"
| "jsToString (JBool b) = Inr (Some (if b then ''true'' else ''false''))"
| "jsToString (JNum n) = Inr (numToString n)"
| "jsToString (JStr s) = Inr (Some s)"
| "jsToString (JArr xs) =
     join_comma (map (\<lambda>x. if x = JNull then Inr (Some []) else jsToString x) xs)"
| "jsToString (JObj kvs) =
     (if ''toString'' \<in> fst ` set kvs then Inl TypeError else Inr (Some ''[object Object]''))"

text \<open>The pattern \<open>/^\d{4}$/\<close> on a text: exactly four characters, each an ASCII digit.\<close>

definition fourDigits :: "string \<Rightarrow> bool" where
  "fourDigits s = (length s = 4 \<and> list_all isDigit s)"

text \<open>\<open>/^\d{4}$/.test(v)\<close>: the exception of the conversion, or whether the text matches.\<close>

definition testFourDigits :: "json \<Rightarrow> js_error + bool" where
  "testFourDigits v = (case jsToString v of
       Inl e \<Rightarrow> Inl e
     | Inr None \<Rightarrow> Inr False
     | Inr (Some s) \<Rightarrow> Inr (fourDigits s))"

text \<open>
  \<open>Math.max(lo, Math.min(hi, Math.round(x)))\<close>. \<open>Math.round\<close> is the floor of \<open>x + 0.5\<close>
  and keeps an infinity, which \<open>Math.min\<close> and \<open>Math.max\<close> then cut to a bound.
\<close>

fun clampRound :: "int \<Rightarrow> int \<Rightarrow> jsnum \<Rightarrow> int" where
  "clampRound lo hi (Fin q) = max lo (min hi \<lfloor>q + 1 / 2\<rfloor>)"
| "clampRound lo hi PosInf = max lo hi"
| "clampRound lo hi NegInf = lo"

section \<open>Settings\<close>

datatype AlarmTone = Beep | Chime

text \<open>
  The settings page declares six fields; the main page declares the same six and the two
  weekend fields. Types are erased at run time, so \<open>parentPin\<close> holds whichever parsed
  value the loader let through.
\<close>

record SettingsPage_Settings =
  carryOverEnabled :: bool
  parentPin :: json
  alarmTone :: AlarmTone
  alarmVolume :: int
  fullCompletionMinutes :: int
  fallbackMinutes :: int

record Settings = SettingsPage_Settings +
  fullCompletionMinutesWeekend :: int
  fallbackMinutesWeekend :: int

definition SettingsPage_DEFAULT_SETTINGS :: SettingsPage_Settings where
  "SettingsPage_DEFAULT_SETTINGS =
     \<lparr> carryOverEnabled = False, parentPin = JStr ''1234'', alarmTone = Beep, alarmVolume = 70,
       fullCompletionMinutes = 45, fallbackMinutes = 15 \<rparr>"

definition DEFAULT_SETTINGS :: Settings where
  "DEFAULT_SETTINGS =
     \<lparr> carryOverEnabled = False, parentPin = JStr ''1234'', alarmTone = Beep, alarmVolume = 70,
       fullCompletionMinutes = 45, fallbackMinutes = 15,
       fullCompletionMinutesWeekend = 45, fallbackMinutesWeekend = 15 \<rparr>"

text \<open>
  The field expressions both loaders share. The PIN expression tests the stored value
  only when it is truthy, and an exception of the test leaves the expression.
\<close>

definition loadPin :: "json option \<Rightarrow> js_error + json" where
  "loadPin v = (case v of
       None \<Rightarrow> Inr (JStr ''1234'')
     | Some x \<Rightarrow>
         if truthy x
         then (case testFourDigits x of
                 Inl e \<Rightarrow> Inl e
               | Inr ok \<Rightarrow> Inr (if ok then x else JStr ''1234''))
         else Inr (JStr ''1234''))"

definition loadTone :: "json option \<Rightarrow> AlarmTone" where
  "loadTone v = (if v = Some (JStr ''chime'') then Chime else Beep)"

definition loadNumber :: "int \<Rightarrow> int \<Rightarrow> int \<Rightarrow> json option \<Rightarrow> int" where
  "loadNumber lo hi dflt v = (case v of Some (JNum x) \<Rightarrow> clampRound lo hi x | _ \<Rightarrow> dflt)"

text \<open>
  \<open>loadSettings\<close> of the main page. Reading a property of \<open>null\<close> throws, and so may
  the PIN test; the \<open>catch\<close> then returns the defaults, whatever the other fields hold.
\<close>

definition loadSettings :: "stored \<Rightarrow> Settings" where
  "loadSettings raw = (case raw of
       NoItem \<Rightarrow> DEFAULT_SETTINGS
     | Unparsable \<Rightarrow> DEFAULT_SETTINGS
     | Parsed parsed \<Rightarrow>
         if parsed = JNull then DEFAULT_SETTINGS
         else
         (case loadPin (getProp parsed ''parentPin'') of
            Inl e \<Rightarrow> DEFAULT_SETTINGS
          | Inr pin \<Rightarrow>
         \<lparr> carryOverEnabled = Boolean_js (getProp parsed ''carryOverEnabled''),
           parentPin = pin,
           alarmTone = loadTone (getProp parsed ''alarmTone''),
           alarmVolume = loadNumber 0 100 (alarmVolume DEFAULT_SETTINGS) (getProp parsed ''alarmVolume''),
           fullCompletionMinutes =
             loadNumber 1 180 (fullCompletionMinutes DEFAULT_SETTINGS) (getProp parsed ''fullCompletionMinutes''),
           fallbackMinutes =
             loadNumber 1 180 (fallbackMinutes DEFAULT_SETTINGS) (getProp parsed ''fallbackMinutes''),
           fullCompletionMinutesWeekend =
             loadNumber 1 180 (fullCompletionMinutesWeekend DEFAULT_SETTINGS)
               (getProp parsed ''fullCompletionMinutesWeekend''),
           fallbackMinutesWeekend =
             loadNumber 1 180 (fallbackMinutesWeekend DEFAULT_SETTINGS)
               (getProp parsed ''fallbackMinutesWeekend'') \<rparr>))"

text \<open>\<open>loadSettings\<close> of the settings page.\<close>

definition SettingsPage_loadSettings :: "stored \<Rightarrow> SettingsPage_Settings" where
  "SettingsPage_loadSettings raw = (case raw of
       NoItem \<Rightarrow> SettingsPage_DEFAULT_SETTINGS
     | Unparsable \<Rightarrow> SettingsPage_DEFAULT_SETTINGS
     | Parsed parsed \<Rightarrow>
         if parsed = JNull then SettingsPage_DEFAULT_SETTINGS
         else
         (case loadPin (getProp parsed ''parentPin'') of
            Inl e \<Rightarrow> SettingsPage_DEFAULT_SETTINGS
          | Inr pin \<Rightarrow>
         \<lparr> carryOverEnabled = Boolean_js (getProp parsed ''carryOverEnabled''),
           parentPin = pin,
           alarmTone = loadTone (getProp parsed ''alarmTone''),
           alarmVolume =
             loadNumber 0 100 (alarmVolume SettingsPage_DEFAULT_SETTINGS) (getProp parsed ''alarmVolume''),
           fullCompletionMinutes =
             loadNumber 1 180 (fullCompletionMinutes SettingsPage_DEFAULT_SETTINGS)
               (getProp parsed ''fullCompletionMinutes''),
           fallbackMinutes =
             loadNumber 1 180 (fallbackMinutes SettingsPage_DEFAULT_SETTINGS)
               (getProp parsed ''fallbackMinutes'') \<rparr>))"

text \<open>
  \<open>saveSettings\<close> of the settings page writes \<open>JSON.stringify(settings)\<close>; the result is
  the value a later \<open>JSON.parse\<close> of that text gives: an object of the six fields the
  page's settings value has.
\<close>

definition toneText :: "AlarmTone \<Rightarrow> string" where
  "toneText t = (case t of Beep \<Rightarrow> ''beep'' | Chime \<Rightarrow> ''chime'')"

definition saveSettings :: "SettingsPage_Settings \<Rightarrow> stored" where
  "saveSettings settings = Parsed (JObj
     [ (''carryOverEnabled'', JBool (carryOverEnabled settings)),
       (''parentPin'', parentPin settings),
       (''alarmTone'', JStr (toneText (alarmTone settings))),
       (''alarmVolume'', JNum (Fin (of_int (alarmVolume settings)))),
       (''fullCompletionMinutes'', JNum (Fin (of_int (fullCompletionMinutes settings)))),
       (''fallbackMinutes'', JNum (Fin (of_int (fallbackMinutes settings)))) ])"

text \<open>
  The editing operations of the settings page: each builds the next settings value from
  the page's current one and saves it. The result is the page's next settings and the item
  written to storage.
\<close>

definition toggleCarry :: "bool \<Rightarrow> SettingsPage_Settings \<Rightarrow> SettingsPage_Settings \<times> stored" where
  "toggleCarry v settings =
     (let next = settings\<lparr>carryOverEnabled := v\<rparr> in (next, saveSettings next))"

definition updateAlarmTone :: "AlarmTone \<Rightarrow> SettingsPage_Settings \<Rightarrow> SettingsPage_Settings \<times> stored" where
  "updateAlarmTone tone settings =
     (let next = settings\<lparr>alarmTone := tone\<rparr> in (next, saveSettings next))"

text \<open>\<open>updatePin\<close> rejects a new PIN that is not four digits and writes nothing then.\<close>

definition updatePin :: "string \<Rightarrow> SettingsPage_Settings \<Rightarrow> (SettingsPage_Settings \<times> stored) option" where
  "updatePin newPin settings =
     (if \<not> fourDigits newPin then None
      else (let next = settings\<lparr>parentPin := JStr newPin\<rparr> in Some (next, saveSettings next)))"

text \<open>The stored value of a field, if the item is a parsed value that has it.\<close>

definition storedField :: "stored \<Rightarrow> string \<Rightarrow> json option" where
  "storedField raw k = (case raw of Parsed parsed \<Rightarrow> getProp parsed k | _ \<Rightarrow> None)"

text \<open>Whether the PIN test throws on the stored item, so that the loaders fall into their \<open>catch\<close>.\<close>

definition pinTestThrows :: "stored \<Rightarrow> bool" where
  "pinTestThrows raw = (case loadPin (storedField raw ''parentPin'') of Inl e \<Rightarrow> True | Inr pin \<Rightarrow> False)"

text \<open>The numeric fields of the settings: stored name, field, lower and upper bound.\<close>

definition numericFields :: "(string \<times> (Settings \<Rightarrow> int) \<times> int \<times> int) list" where
  "numericFields =
     [ (''alarmVolume'', alarmVolume, 0, 100),
       (''fullCompletionMinutes'', fullCompletionMinutes, 1, 180),
       (''fallbackMinutes'', fallbackMinutes, 1, 180),
       (''fullCompletionMinutesWeekend'', fullCompletionMinutesWeekend, 1, 180),
       (''fallbackMinutesWeekend'', fallbackMinutesWeekend, 1, 180) ]"

section \<open>Daily records\<close>

datatype CheckKey = Prep | Homework | Sleep | Leave

record DailyChecks =
  prep :: bool
  homework :: bool
  sleep :: bool
  leave :: bool

text \<open>
  Seconds and minutes are integers; \<open>lastStartedAt\<close> is an instant in milliseconds.
  \<open>None\<close> is \<open>null\<close>. The record of the page has a boolean \<open>isAlarming\<close>. An entry of the
  stored records map need not: the flag may be missing (\<open>None\<close>) or any parsed value, which
  is why \<open>createRecordForDate\<close> passes it through \<open>Boolean\<close>.
\<close>

record 'flag DailyRecord_of =
  date :: string
  checks :: DailyChecks
  carryInSeconds :: int
  lockedAllocationMinutes :: "int option"
  remainingSeconds :: "int option"
  isRunning :: bool
  isAlarming :: 'flag
  lastStartedAt :: "int option"

type_synonym DailyRecord = "bool DailyRecord_of"

type_synonym StoredRecord = "json option DailyRecord_of"

definition DEFAULT_CHECKS :: DailyChecks where
  "DEFAULT_CHECKS = \<lparr> prep = False, homework = False, sleep = False, leave = False \<rparr>"

text \<open>\<open>Object.values(checks).every(Boolean)\<close>.\<close>

definition allChecked :: "DailyChecks \<Rightarrow> bool" where
  "allChecked c = (prep c \<and> homework c \<and> sleep c \<and> leave c)"

definition allocationFromChecks :: "DailyChecks \<Rightarrow> Settings \<Rightarrow> bool \<Rightarrow> int" where
  "allocationFromChecks c settings weekend =
     (if allChecked c
      then (if weekend then fullCompletionMinutesWeekend settings else fullCompletionMinutes settings)
      else (if weekend then fallbackMinutesWeekend settings else fallbackMinutes settings))"

text \<open>
  \<open>createRecordForDate\<close>. The stored entry is returned with its fields spread and
  \<open>isAlarming\<close> passed through \<open>Boolean\<close>. In the carry-over test
  \<open>yesterday.remainingSeconds\<close> stands as a condition of its own: \<open>null\<close> and 0 are both
  falsy.
\<close>

definition createRecordForDate :: "string \<Rightarrow> (string \<rightharpoonup> StoredRecord) \<Rightarrow> Settings \<Rightarrow> DailyRecord" where
  "createRecordForDate dateKey records settings =
     (case records dateKey of
        Some existing \<Rightarrow>
          \<lparr> date = date existing, checks = checks existing,
            carryInSeconds = carryInSeconds existing,
            lockedAllocationMinutes = lockedAllocationMinutes existing,
            remainingSeconds = remainingSeconds existing, isRunning = isRunning existing,
            isAlarming = Boolean_js (isAlarming existing),
            lastStartedAt = lastStartedAt existing \<rparr>
      | None \<Rightarrow>
          (let yesterdayKey = getYesterdayKey dateKey;
               carry =
                 (case records yesterdayKey of
                    None \<Rightarrow> 0
                  | Some yesterday \<Rightarrow>
                      (case remainingSeconds yesterday of
                         None \<Rightarrow> 0
                       | Some r \<Rightarrow> if carryOverEnabled settings \<and> r \<noteq> 0 \<and> r > 0 then r else 0))
           in \<lparr> date = dateKey, checks = DEFAULT_CHECKS, carryInSeconds = carry,
                lockedAllocationMinutes = None, remainingSeconds = None, isRunning = False,
                isAlarming = False, lastStartedAt = None \<rparr>))"

section \<open>The countdown\<close>

text \<open>
  The operations of the main page on its \<open>today\<close> record, once it is loaded; \<open>now\<close> is
  the value of \<open>Date.now()\<close>. Each returns the next value of \<open>today\<close>, the same record
  where the source returns early.
\<close>

text \<open>
  The body of the one-second interval. \<open>!prev.lastStartedAt\<close> holds for \<open>null\<close> and for
  the instant 0. \<open>Math.floor\<close> of the quotient is \<open>div\<close>.
\<close>

definition tick :: "int \<Rightarrow> DailyRecord \<Rightarrow> DailyRecord" where
  "tick now prev =
     (case (lastStartedAt prev, remainingSeconds prev) of
        (Some started, Some remaining) \<Rightarrow>
          if \<not> isRunning prev \<or> started = 0 then prev
          else
            (let elapsed = (now - started) div 1000 in
             if elapsed \<le> 0 then prev
             else
               (let nextRemaining = max 0 (remaining - elapsed) in
                prev\<lparr> remainingSeconds := Some nextRemaining,
                      lastStartedAt := (if nextRemaining > 0 then Some (started + elapsed * 1000) else None),
                      isRunning := (nextRemaining > 0),
                      isAlarming := (if nextRemaining = 0 then True else isAlarming prev) \<rparr>))
      | _ \<Rightarrow> prev)"

definition flipCheck :: "CheckKey \<Rightarrow> DailyChecks \<Rightarrow> DailyChecks" where
  "flipCheck key c = (case key of
       Prep \<Rightarrow> c\<lparr>prep := \<not> prep c\<rparr>
     | Homework \<Rightarrow> c\<lparr>homework := \<not> homework c\<rparr>
     | Sleep \<Rightarrow> c\<lparr>sleep := \<not> sleep c\<rparr>
     | Leave \<Rightarrow> c\<lparr>leave := \<not> leave c\<rparr>)"

definition toggleCheck :: "CheckKey \<Rightarrow> DailyRecord \<Rightarrow> DailyRecord" where
  "toggleCheck key today =
     (if isRunning today then today else today\<lparr>checks := flipCheck key (checks today)\<rparr>)"

text \<open>The memoised \<open>currentAllocation\<close> of the page.\<close>

definition currentAllocation :: "Settings \<Rightarrow> DailyRecord \<Rightarrow> int" where
  "currentAllocation settings today =
     allocationFromChecks (checks today) settings (isWeekend (date today))"

text \<open>
  \<open>startTimer\<close>. With an incomplete checklist and no \<open>skipConfirm\<close> it only opens the
  confirmation dialog and leaves the record as it is.
\<close>

definition startTimer :: "Settings \<Rightarrow> int \<Rightarrow> bool \<Rightarrow> DailyRecord \<Rightarrow> DailyRecord" where
  "startTimer settings now skipConfirm today =
     (if \<not> skipConfirm \<and> \<not> allChecked (checks today) then today
      else
        (let allocation =
               (case lockedAllocationMinutes today of
                  Some a \<Rightarrow> a
                | None \<Rightarrow> currentAllocation settings today);
             baseSeconds =
               (case remainingSeconds today of
                  None \<Rightarrow> allocation * 60 + carryInSeconds today
                | Some r \<Rightarrow> r)
         in if baseSeconds \<le> 0 then today
            else today\<lparr> lockedAllocationMinutes := Some allocation,
                        remainingSeconds := Some baseSeconds,
                        isRunning := True,
                        isAlarming := False,
                        lastStartedAt := Some now \<rparr>))"

definition pauseTimer :: "int \<Rightarrow> DailyRecord \<Rightarrow> DailyRecord" where
  "pauseTimer now today =
     (case (lastStartedAt today, remainingSeconds today) of
        (Some started, Some remaining) \<Rightarrow>
          if \<not> isRunning today \<or> started = 0 then today
          else
            (let elapsed = (now - started) div 1000;
                 nextRemaining = max 0 (remaining - elapsed)
             in today\<lparr> remainingSeconds := Some nextRemaining,
                       isRunning := False,
                       isAlarming := False,
                       lastStartedAt := None \<rparr>)
      | _ \<Rightarrow> today)"

definition finishTimer :: "Settings \<Rightarrow> DailyRecord \<Rightarrow> DailyRecord" where
  "finishTimer settings today =
     today\<lparr> remainingSeconds := Some 0,
            isRunning := False,
            isAlarming := False,
            lastStartedAt := None,
            lockedAllocationMinutes :=
              Some (case lockedAllocationMinutes today of
                      Some a \<Rightarrow> a
                    | None \<Rightarrow> currentAllocation settings today) \<rparr>"

text \<open>What the page shows and offers: the start button is enabled by \<open>canStart\<close>.\<close>

definition grantedMinutes :: "Settings \<Rightarrow> DailyRecord \<Rightarrow> int" where
  "grantedMinutes settings today =
     (case lockedAllocationMinutes today of
        Some a \<Rightarrow> a
      | None \<Rightarrow> currentAllocation settings today)"

definition initialSeconds :: "Settings \<Rightarrow> DailyRecord \<Rightarrow> int" where
  "initialSeconds settings today = grantedMinutes settings today * 60 + carryInSeconds today"

definition shownRemainingSeconds :: "Settings \<Rightarrow> DailyRecord \<Rightarrow> int" where
  "shownRemainingSeconds settings today =
     (case remainingSeconds today of
        Some r \<Rightarrow> r
      | None \<Rightarrow> initialSeconds settings today)"

definition canStart :: "Settings \<Rightarrow> DailyRecord \<Rightarrow> bool" where
  "canStart settings today = (shownRemainingSeconds settings today > 0)"

subsection \<open>Sequences of commands\<close>

datatype Command =
    Start Settings int bool
  | Tick int
  | Pause int
  | Finish Settings
  | Toggle CheckKey

fun applyCommand :: "DailyRecord \<Rightarrow> Command \<Rightarrow> DailyRecord" where
  "applyCommand r (Start settings now skipConfirm) = startTimer settings now skipConfirm r"
| "applyCommand r (Tick now) = tick now r"
| "applyCommand r (Pause now) = pauseTimer now r"
| "applyCommand r (Finish settings) = finishTimer settings r"
| "applyCommand r (Toggle key) = toggleCheck key r"

definition runCommands :: "Command list \<Rightarrow> DailyRecord \<Rightarrow> DailyRecord" where
  "runCommands cs r = foldl applyCommand r cs"

text \<open>The invariants of a record.\<close>

definition recordInvariant :: "DailyRecord \<Rightarrow> bool" where
  "recordInvariant r =
     ((isRunning r \<longrightarrow> lastStartedAt r \<noteq> None \<and> remainingSeconds r \<noteq> None)
      \<and> (isAlarming r \<longrightarrow> \<not> isRunning r)
      \<and> (remainingSeconds r = Some 0 \<longrightarrow> \<not> isRunning r)
      \<and> (case remainingSeconds r of None \<Rightarrow> True | Some x \<Rightarrow> 0 \<le> x))"

section \<open>Example values\<close>

definition exampleRunning :: DailyRecord where
  "exampleRunning =
     \<lparr> date = ''2026-02-15'', checks = DEFAULT_CHECKS, carryInSeconds = 0,
       lockedAllocationMinutes = Some 15, remainingSeconds = Some 100, isRunning = True,
       isAlarming = False, lastStartedAt = Some 1771083000000 \<rparr>"

definition exampleLastSeconds :: DailyRecord where
  "exampleLastSeconds = exampleRunning\<lparr>remainingSeconds := Some 5\<rparr>"

definition exampleCommands :: "Command list" where
  "exampleCommands =
     [ Tick 1771083007000, Pause 1771083009500, Toggle Prep, Start DEFAULT_SETTINGS 1771083060000 True,
       Tick 1771083200000 ]"

text \<open>An entry written before the alarm flag existed: it has no \<open>isAlarming\<close>.\<close>

definition exampleYesterday :: StoredRecord where
  "exampleYesterday =
     \<lparr> date = ''2026-02-28'', checks = DEFAULT_CHECKS, carryInSeconds = 0,
       lockedAllocationMinutes = Some 15, remainingSeconds = Some 600, isRunning = False,
       isAlarming = None, lastStartedAt = None \<rparr>"

definition exampleRecords :: "string \<rightharpoonup> StoredRecord" where
  "exampleRecords = [''2026-02-28'' \<mapsto> exampleYesterday]"

definition exampleWeekendItem :: stored where
  "exampleWeekendItem = Parsed (JObj
     [ (''carryOverEnabled'', JBool False),
       (''parentPin'', JStr ''1234''),
       (''alarmTone'', JStr ''beep''),
       (''alarmVolume'', JNum (Fin 70)),
       (''fullCompletionMinutes'', JNum (Fin 45)),
       (''fallbackMinutes'', JNum (Fin 15)),
       (''fullCompletionMinutesWeekend'', JNum (Fin 90)),
       (''fallbackMinutesWeekend'', JNum (Fin 30)) ])"

definition examplePayload :: stored where
  "examplePayload = Parsed (JObj
     [ (''parentPin'', JStr ''12a4''),
       (''alarmVolume'', JNum (Fin 250)),
       (''fullCompletionMinutes'', JNum (Fin (-3))),
       (''fallbackMinutes'', JStr ''20''),
       (''fullCompletionMinutesWeekend'', JNum PosInf),
       (''fallbackMinutesWeekend'', JNum (Fin (61 / 2))) ])"

definition exampleTooLarge :: stored where
  "exampleTooLarge = Parsed (JObj [(''fullCompletionMinutes'', JNum (Fin 500))])"

text \<open>A stored PIN that is an object with a \<open>toString\<close> property of its own.\<close>

definition exampleThrowingPin :: stored where
  "exampleThrowingPin = Parsed (JObj
     [ (''parentPin'', JObj [(''toString'', JNum (Fin 1))]),
       (''alarmVolume'', JNum (Fin 50)),
       (''fullCompletionMinutes'', JNum (Fin 500)) ])"

definition exampleArrayPin :: stored where
  "exampleArrayPin = Parsed (JObj [(''parentPin'', JArr [JStr ''1234''])])"

section \<open>Ticks and elapsed time\<close>

lemma tick_partial:
  assumes "isRunning r" "remainingSeconds r = Some R" "lastStartedAt r = Some A" "0 < A"
    and "(now - A) div 1000 = e" "0 < e" "e < R"
  shows "tick now r = r\<lparr>remainingSeconds := Some (R - e), lastStartedAt := Some (A + e * 1000)\<rparr>"
  using assms by (simp add: tick_def Let_def)

text \<open>
  C1. Take a running record with remaining seconds \<open>R\<close> and anchor \<open>A\<close>, an instant after
  the epoch (the interval reads the instant 0 as no anchor). A tick at an instant whose
  whole elapsed seconds since \<open>A\<close> are \<open>e\<close>, with \<open>0 < e < R\<close>, leaves \<open>R - e\<close> seconds,
  keeps the record running and moves the anchor to \<open>A\<close> plus \<open>e\<close> seconds, not to the
  instant of the tick. Two ticks in a row, of \<open>e1\<close> and then \<open>e2\<close> seconds past the new
  anchor, leave \<open>R - (e1 + e2)\<close>: with 7 and 3 that is \<open>R - 10\<close>.
\<close>

theorem tick_conserves_elapsed:
  assumes run: "isRunning r" and rem: "remainingSeconds r = Some R"
    and anchor: "lastStartedAt r = Some A" and pos: "0 < A"
  shows "(0 < e \<and> e < R \<and> (now - A) div 1000 = e \<longrightarrow>
           remainingSeconds (tick now r) = Some (R - e)
           \<and> isRunning (tick now r)
           \<and> lastStartedAt (tick now r) = Some (A + e * 1000))
       \<and> (0 < e1 \<and> 0 < e2 \<and> e1 + e2 < R \<and> (now1 - A) div 1000 = e1
           \<and> (now2 - (A + e1 * 1000)) div 1000 = e2 \<longrightarrow>
           remainingSeconds (tick now2 (tick now1 r)) = Some (R - (e1 + e2))
           \<and> isRunning (tick now2 (tick now1 r))
           \<and> lastStartedAt (tick now2 (tick now1 r)) = Some (A + (e1 + e2) * 1000))"
proof (intro conjI impI)
  assume "0 < e \<and> e < R \<and> (now - A) div 1000 = e"
  then have "tick now r = r\<lparr>remainingSeconds := Some (R - e), lastStartedAt := Some (A + e * 1000)\<rparr>"
    using assms by (intro tick_partial) auto
  then show "remainingSeconds (tick now r) = Some (R - e)" "isRunning (tick now r)"
    "lastStartedAt (tick now r) = Some (A + e * 1000)"
    using run by simp_all
next
  assume h: "0 < e1 \<and> 0 < e2 \<and> e1 + e2 < R \<and> (now1 - A) div 1000 = e1
           \<and> (now2 - (A + e1 * 1000)) div 1000 = e2"
  let ?r1 = "tick now1 r"
  have first: "?r1 = r\<lparr>remainingSeconds := Some (R - e1), lastStartedAt := Some (A + e1 * 1000)\<rparr>"
    using assms h by (intro tick_partial) auto
  have second: "tick now2 ?r1 =
      ?r1\<lparr>remainingSeconds := Some (R - e1 - e2), lastStartedAt := Some (A + e1 * 1000 + e2 * 1000)\<rparr>"
    using assms h by (intro tick_partial) (auto simp: first)
  show "remainingSeconds (tick now2 ?r1) = Some (R - (e1 + e2))"
    unfolding second by (simp add: algebra_simps)
  show "isRunning (tick now2 ?r1)"
    unfolding second using run by (simp add: first)
  show "lastStartedAt (tick now2 ?r1) = Some (A + (e1 + e2) * 1000)"
    unfolding second by (simp add: algebra_simps)
qed

theorem tick_conserves_elapsed_witness:
  "remainingSeconds (tick 1771083007000 exampleRunning) = Some 93
   \<and> isRunning (tick 1771083007000 exampleRunning)
   \<and> lastStartedAt (tick 1771083007000 exampleRunning) = Some 1771083007000
   \<and> remainingSeconds (tick 1771083010999 (tick 1771083007450 exampleRunning)) = Some 90
   \<and> lastStartedAt (tick 1771083010999 (tick 1771083007450 exampleRunning)) = Some 1771083010000"
proof -
  have a: "isRunning exampleRunning" "remainingSeconds exampleRunning = Some 100"
    "lastStartedAt exampleRunning = Some 1771083000000" "(0::int) < 1771083000000"
    by (simp_all add: exampleRunning_def)
  have one: "(0::int) < 7 \<and> (7::int) < 100 \<and> (1771083007000 - 1771083000000) div 1000 = (7::int)"
    by simp
  have two: "(0::int) < 7 \<and> (0::int) < 3 \<and> (7::int) + 3 < 100 \<and> (1771083007450 - 1771083000000) div 1000 = (7::int)
     \<and> (1771083010999 - (1771083000000 + 7 * 1000)) div 1000 = (3::int)"
    by simp
  from tick_conserves_elapsed [OF a, where e = 7 and now = 1771083007000 and ?e1.0 = 7 and ?e2.0 = 3
      and ?now1.0 = 1771083007450 and ?now2.0 = 1771083010999] one two
  show ?thesis by simp
qed

section \<open>Commands the state does not allow\<close>

text \<open>
  C2, as the claim has it, fails for \<open>start\<close> on a running record: \<open>startTimer\<close> has no
  test of \<open>isRunning\<close>, and five seconds after the anchor of the running example record it moves
  that anchor to the instant of the call.
\<close>

theorem start_while_running_counterexample:
  "startTimer DEFAULT_SETTINGS 1771083005000 True exampleRunning \<noteq> exampleRunning"
  by (simp add: startTimer_def exampleRunning_def Let_def)

text \<open>
  C2, amended. \<open>toggleCheck\<close> on a running record returns the record unchanged, and so does
  \<open>startTimer\<close> when the effective remaining seconds are not positive (\<open>canStart\<close> is
  false). \<open>startTimer\<close> itself does not look at the running flag; the page offers the start
  button only while the record is not running. On a running record with \<open>R > 0\<close> seconds
  left, past the confirmation dialog, it keeps \<open>R\<close> and the running flag, moves the anchor
  to \<open>now\<close>, clears the alarm and locks the allocation.
\<close>

theorem invalid_commands:
  "(isRunning r \<longrightarrow> toggleCheck key r = r)
   \<and> (\<not> canStart settings r \<longrightarrow> startTimer settings now skipConfirm r = r)
   \<and> (isRunning r \<and> remainingSeconds r = Some R \<and> 0 < R \<and> (skipConfirm \<or> allChecked (checks r)) \<longrightarrow>
        startTimer settings now skipConfirm r =
          r\<lparr> lockedAllocationMinutes := Some (grantedMinutes settings r),
              isAlarming := False,
              lastStartedAt := Some now \<rparr>)"
proof (intro conjI impI)
  assume "isRunning r"
  then show "toggleCheck key r = r"
    by (simp add: toggleCheck_def)
next
  assume "\<not> canStart settings r"
  then show "startTimer settings now skipConfirm r = r"
    by (simp add: canStart_def shownRemainingSeconds_def initialSeconds_def grantedMinutes_def
        startTimer_def Let_def split: option.splits)
next
  assume "isRunning r \<and> remainingSeconds r = Some R \<and> 0 < R \<and> (skipConfirm \<or> allChecked (checks r))"
  then show "startTimer settings now skipConfirm r =
          r\<lparr> lockedAllocationMinutes := Some (grantedMinutes settings r),
              isAlarming := False,
              lastStartedAt := Some now \<rparr>"
    by (auto simp: startTimer_def grantedMinutes_def Let_def split: option.splits)
qed

theorem invalid_commands_witness:
  "toggleCheck Prep exampleRunning = exampleRunning
   \<and> startTimer DEFAULT_SETTINGS 1771083005000 True (exampleRunning\<lparr>isRunning := False, remainingSeconds := Some 0\<rparr>)
       = exampleRunning\<lparr>isRunning := False, remainingSeconds := Some 0\<rparr>
   \<and> lastStartedAt (startTimer DEFAULT_SETTINGS 1771083005000 True exampleRunning) = Some 1771083005000
   \<and> remainingSeconds (startTimer DEFAULT_SETTINGS 1771083005000 True exampleRunning) = Some 100"
proof -
  let ?stopped = "exampleRunning\<lparr>isRunning := False, remainingSeconds := Some 0\<rparr>"
  have a: "isRunning exampleRunning"
    by (simp add: exampleRunning_def)
  have b: "\<not> canStart DEFAULT_SETTINGS ?stopped"
    by (simp add: canStart_def shownRemainingSeconds_def exampleRunning_def)
  have c: "isRunning exampleRunning \<and> remainingSeconds exampleRunning = Some 100 \<and> (0::int) < 100
           \<and> (True \<or> allChecked (checks exampleRunning))"
    by (simp add: exampleRunning_def)
  from invalid_commands [where r = exampleRunning and key = Prep and settings = DEFAULT_SETTINGS
      and R = 100 and skipConfirm = True and now = 1771083005000] a c
  have one: "toggleCheck Prep exampleRunning = exampleRunning"
    and three: "startTimer DEFAULT_SETTINGS 1771083005000 True exampleRunning =
          exampleRunning\<lparr> lockedAllocationMinutes := Some (grantedMinutes DEFAULT_SETTINGS exampleRunning),
              isAlarming := False, lastStartedAt := Some 1771083005000 \<rparr>"
    by blast+
  from invalid_commands [where r = ?stopped and settings = DEFAULT_SETTINGS
      and skipConfirm = True and now = 1771083005000] b
  have two: "startTimer DEFAULT_SETTINGS 1771083005000 True ?stopped = ?stopped"
    by blast
  show ?thesis using one two three by (simp add: exampleRunning_def)
qed

section \<open>Expiry and pause\<close>

text \<open>
  C3. On a running record with 5 seconds left (anchor after the epoch), a tick 5 whole
  seconds after the anchor leaves 0 seconds, stops the record, clears the anchor and sets
  the alarm; a pause at the same instant leaves 0 seconds, stops the record, clears the
  anchor and leaves the alarm off. A pause never turns the alarm on: a record that is
  alarming after \<open>pauseTimer\<close> was alarming before, and the pause did nothing to it.
\<close>

theorem expiry_alarm_pause_silent:
  assumes "isRunning r" and "remainingSeconds r = Some 5" and "lastStartedAt r = Some A"
    and "0 < A" and "(now - A) div 1000 = 5"
  shows "tick now r = r\<lparr>remainingSeconds := Some 0, lastStartedAt := None, isRunning := False, isAlarming := True\<rparr>
     \<and> pauseTimer now r = r\<lparr>remainingSeconds := Some 0, isRunning := False, isAlarming := False, lastStartedAt := None\<rparr>
     \<and> (\<forall>t r'. isAlarming (pauseTimer t r') \<longrightarrow> isAlarming r' \<and> pauseTimer t r' = r')"
proof (intro conjI allI impI)
  show "tick now r = r\<lparr>remainingSeconds := Some 0, lastStartedAt := None, isRunning := False, isAlarming := True\<rparr>"
    using assms by (simp add: tick_def Let_def)
  show "pauseTimer now r = r\<lparr>remainingSeconds := Some 0, isRunning := False, isAlarming := False, lastStartedAt := None\<rparr>"
    using assms by (simp add: pauseTimer_def Let_def)
next
  fix t r'
  assume h: "isAlarming (pauseTimer t r')"
  then show "isAlarming r'"
    by (auto simp: pauseTimer_def Let_def split: option.splits if_splits)
  from h show "pauseTimer t r' = r'"
    by (auto simp: pauseTimer_def Let_def split: option.splits if_splits)
qed

theorem expiry_alarm_pause_silent_witness:
  "remainingSeconds (tick 1771083005000 exampleLastSeconds) = Some 0
   \<and> \<not> isRunning (tick 1771083005000 exampleLastSeconds)
   \<and> lastStartedAt (tick 1771083005000 exampleLastSeconds) = None
   \<and> isAlarming (tick 1771083005000 exampleLastSeconds)
   \<and> remainingSeconds (pauseTimer 1771083005000 exampleLastSeconds) = Some 0
   \<and> \<not> isRunning (pauseTimer 1771083005000 exampleLastSeconds)
   \<and> lastStartedAt (pauseTimer 1771083005000 exampleLastSeconds) = None
   \<and> \<not> isAlarming (pauseTimer 1771083005000 exampleLastSeconds)"
proof -
  have a: "isRunning exampleLastSeconds" "remainingSeconds exampleLastSeconds = Some 5"
    "lastStartedAt exampleLastSeconds = Some 1771083000000" "(0::int) < 1771083000000"
    "(1771083005000 - 1771083000000) div 1000 = (5::int)"
    by (simp_all add: exampleLastSeconds_def exampleRunning_def)
  from expiry_alarm_pause_silent [OF a] show ?thesis by simp
qed

section \<open>Invariants of the countdown\<close>

lemma inv_tick: "recordInvariant r \<Longrightarrow> recordInvariant (tick now r)"
  by (auto simp: recordInvariant_def tick_def Let_def split: option.splits)

lemma inv_pause: "recordInvariant r \<Longrightarrow> recordInvariant (pauseTimer now r)"
  by (auto simp: recordInvariant_def pauseTimer_def Let_def split: option.splits)

lemma inv_start: "recordInvariant r \<Longrightarrow> recordInvariant (startTimer s now k r)"
  by (auto simp: recordInvariant_def startTimer_def Let_def split: option.splits)

lemma inv_finish: "recordInvariant (finishTimer s r)"
  by (simp add: recordInvariant_def finishTimer_def)

lemma inv_toggle: "recordInvariant r \<Longrightarrow> recordInvariant (toggleCheck k r)"
  by (auto simp: recordInvariant_def toggleCheck_def)

lemma inv_applyCommand: "recordInvariant r \<Longrightarrow> recordInvariant (applyCommand r c)"
  by (cases c) (simp_all add: inv_tick inv_pause inv_start inv_finish inv_toggle)

lemma inv_runCommands: "recordInvariant r \<Longrightarrow> recordInvariant (runCommands cs r)"
  unfolding runCommands_def
  by (induction cs arbitrary: r) (simp_all add: inv_applyCommand)

text \<open>A record made for a date without an entry starts inside the invariant.\<close>

lemma inv_fresh:
  "records dateKey = None \<Longrightarrow> recordInvariant (createRecordForDate dateKey records settings)"
  by (simp add: createRecordForDate_def recordInvariant_def Let_def)

text \<open>
  C5. Start, tick, pause and finish each keep the invariants of a record: a running record
  has an anchor and remaining seconds, an alarming record is not running, a record with 0
  seconds left is not running, and remaining seconds are never negative. So does every
  sequence of commands, whatever the instants passed to them.
\<close>

theorem countdown_keeps_invariants:
  assumes "recordInvariant r"
  shows "recordInvariant (startTimer settings now skipConfirm r)
     \<and> recordInvariant (tick now r)
     \<and> recordInvariant (pauseTimer now r)
     \<and> recordInvariant (finishTimer settings r)
     \<and> recordInvariant (runCommands cs r)
     \<and> (\<forall>x. remainingSeconds (runCommands cs r) = Some x \<longrightarrow> 0 \<le> x)"
proof -
  have "recordInvariant (runCommands cs r)"
    using assms by (rule inv_runCommands)
  moreover from this have "\<forall>x. remainingSeconds (runCommands cs r) = Some x \<longrightarrow> 0 \<le> x"
    by (auto simp: recordInvariant_def)
  ultimately show ?thesis
    using assms by (simp add: inv_start inv_tick inv_pause inv_finish)
qed

theorem countdown_keeps_invariants_witness:
  "recordInvariant exampleRunning
   \<and> recordInvariant (runCommands exampleCommands exampleRunning)
   \<and> remainingSeconds (runCommands exampleCommands exampleRunning) = Some 0
   \<and> \<not> isRunning (runCommands exampleCommands exampleRunning)
   \<and> isAlarming (runCommands exampleCommands exampleRunning)"
proof -
  have a: "recordInvariant exampleRunning"
    by (simp add: recordInvariant_def exampleRunning_def)
  have b: "remainingSeconds (runCommands exampleCommands exampleRunning) = Some 0
     \<and> \<not> isRunning (runCommands exampleCommands exampleRunning)
     \<and> isAlarming (runCommands exampleCommands exampleRunning)"
    by (simp add: runCommands_def exampleCommands_def exampleRunning_def tick_def pauseTimer_def
        toggleCheck_def startTimer_def Let_def)
  from countdown_keeps_invariants [OF a, where cs = exampleCommands] a b
  show ?thesis by simp
qed

section \<open>Remaining seconds under a clock that steps back\<close>

text \<open>
  Tick, start and finish never raise the remaining seconds of a record that has them, and
  neither does a pause at an instant not before the anchor.
\<close>

lemma remaining_not_raised:
  assumes "remainingSeconds r = Some x" and "0 \<le> x"
  shows "\<exists>y. remainingSeconds (tick now r) = Some y \<and> y \<le> x"
    and "\<exists>y. remainingSeconds (startTimer settings now skipConfirm r) = Some y \<and> y \<le> x"
    and "\<exists>y. remainingSeconds (finishTimer settings r) = Some y \<and> y \<le> x"
    and "lastStartedAt r = Some A \<Longrightarrow> A \<le> now \<Longrightarrow>
           \<exists>y. remainingSeconds (pauseTimer now r) = Some y \<and> y \<le> x"
proof -
  show "\<exists>y. remainingSeconds (tick now r) = Some y \<and> y \<le> x"
    using assms by (auto simp: tick_def Let_def split: option.splits)
  show "\<exists>y. remainingSeconds (startTimer settings now skipConfirm r) = Some y \<and> y \<le> x"
    using assms by (auto simp: startTimer_def Let_def split: option.splits)
  show "\<exists>y. remainingSeconds (finishTimer settings r) = Some y \<and> y \<le> x"
    using assms by (simp add: finishTimer_def)
  show "\<exists>y. remainingSeconds (pauseTimer now r) = Some y \<and> y \<le> x"
    if "lastStartedAt r = Some A" "A \<le> now"
  proof -
    from that have "0 \<le> (now - A) div 1000"
      by simp
    then show ?thesis
      using assms that by (auto simp: pauseTimer_def Let_def)
  qed
qed

text \<open>
  C6. The claim asks that no operation raises the remaining seconds, also when \<open>now\<close> lies
  before the anchor. \<open>tick\<close> returns early when the elapsed seconds are not positive;
  \<open>pauseTimer\<close> has no such test and subtracts a negative elapsed time. The running example
  record has 100 seconds left; paused at an instant 6 seconds before its anchor it has 106.
\<close>

theorem pause_after_clock_step_back:
  "remainingSeconds exampleRunning = Some 100
   \<and> remainingSeconds (pauseTimer 1771082994000 exampleRunning) = Some 106"
  by (simp add: pauseTimer_def exampleRunning_def Let_def)

theorem pause_after_clock_step_back_witness:
  "remainingSeconds (pauseTimer 1771082994000 exampleRunning) \<noteq> remainingSeconds exampleRunning"
  using pause_after_clock_step_back by simp

section \<open>The day before a date key\<close>

text \<open>
  The year of the era that \<open>civil_from_days\<close> computes is the year whose days hold the
  day of the era: the numerator grows with the day, and at both ends of each of the 400
  years it gives that year.
\<close>

lemma yearsChecked_400: "yearsChecked 400"
  by code_simp

lemma yearsChecked_year: "yearsChecked n \<Longrightarrow> k < n \<Longrightarrow> yearChecked (int k)"
  by (induction n) (auto simp: less_Suc_eq)

lemma sub_div_mono:
  fixes x y n :: int
  assumes "0 < n" "x \<le> y"
  shows "x - x div n \<le> y - y div n"
proof -
  have "(y - x) * 1 \<le> (y - x) * n"
    using assms by (intro mult_left_mono) auto
  then have "y \<le> x + (y - x) * n"
    by simp
  then have "y div n \<le> (x + (y - x) * n) div n"
    using assms(1) by (intro zdiv_mono1) auto
  also have "\<dots> = x div n + (y - x)"
    using assms(1) by simp
  finally show ?thesis by simp
qed

lemma scaledDay_mono:
  assumes "x \<le> y"
  shows "scaledDay x \<le> scaledDay y"
proof -
  have c: "z div 146096 = (z div 36524) div 4" for z :: int
    using zdiv_zmult2_eq [of 4 z 36524] by simp
  have "x - x div 1460 \<le> y - y div 1460"
    using assms by (intro sub_div_mono) auto
  moreover have "x div 36524 \<le> y div 36524"
    using assms by (intro zdiv_mono1) auto
  then have "x div 36524 - (x div 36524) div 4 \<le> y div 36524 - (y div 36524) div 4"
    by (intro sub_div_mono) auto
  ultimately show ?thesis
    unfolding scaledDay_def c by linarith
qed

lemma step_bounds:
  fixes a b c k :: int
  assumes "a \<le> a'" "a' \<le> a + 1" "b \<le> b'" "b' \<le> b + 1" "c \<le> c'" "c' \<le> c + 1"
  shows "365 * k + a - b + c < 365 * (k + 1) + a' - b' + c'
     \<and> 365 * (k + 1) + a' - b' + c' \<le> 365 * k + a - b + c + 367"
  using assms by auto

lemma yearStart_step: "yearStart k < yearStart (k + 1) \<and> yearStart (k + 1) \<le> yearStart k + 367"
proof -
  have "k div 4 \<le> (k + 1) div 4" "(k + 1) div 4 \<le> k div 4 + 1"
    "k div 100 \<le> (k + 1) div 100" "(k + 1) div 100 \<le> k div 100 + 1"
    "k div 400 \<le> (k + 1) div 400" "(k + 1) div 400 \<le> k div 400 + 1"
    by linarith+
  from step_bounds [OF this] show ?thesis
    unfolding yearStart_def .
qed

lemma year_exists:
  assumes "0 \<le> doe" "doe < yearStart (int n)"
  shows "\<exists>k<n. yearStart (int k) \<le> doe \<and> doe < yearStart (int k + 1)"
  using assms(2)
proof (induction n)
  case 0
  with assms(1) show ?case by (simp add: yearStart_def)
next
  case (Suc n)
  show ?case
  proof (cases "doe < yearStart (int n)")
    case True
    from Suc.IH [OF this] show ?thesis by (auto simp: less_Suc_eq)
  next
    case False
    with Suc.prems have "yearStart (int n) \<le> doe \<and> doe < yearStart (int n + 1)"
      by (simp add: add.commute)
    then show ?thesis by blast
  qed
qed

lemma year_of_era:
  assumes "0 \<le> doe" "doe \<le> 146096"
  defines "yoe \<equiv> scaledDay doe div 365"
  shows "0 \<le> yoe \<and> yoe \<le> 399 \<and> yearStart yoe \<le> doe \<and> doe < yearStart (yoe + 1)"
proof -
  have "doe < yearStart (int 400)"
    using assms(2) by (simp add: yearStart_def)
  from year_exists [OF assms(1) this] obtain k where k: "k < 400"
    "yearStart (int k) \<le> doe" "doe < yearStart (int k + 1)"
    by blast
  from yearsChecked_year [OF yearsChecked_400 k(1)]
  have chk: "365 * int k \<le> scaledDay (yearStart (int k))"
    "scaledDay (yearStart (int k + 1) - 1) \<le> 365 * int k + 364"
    by (simp_all add: yearChecked_def)
  have "scaledDay (yearStart (int k)) \<le> scaledDay doe"
    using k(2) by (rule scaledDay_mono)
  moreover have "scaledDay doe \<le> scaledDay (yearStart (int k + 1) - 1)"
    using k(3) by (intro scaledDay_mono) simp
  ultimately have "365 * int k \<le> scaledDay doe" "scaledDay doe \<le> 365 * int k + 364"
    using chk by linarith+
  then have "yoe = int k"
    unfolding yoe_def by linarith
  with k show ?thesis by simp
qed


text \<open>
  The fields of a day number are a month in 1..12 and a day from 1 on, and the day number
  of these fields is the one they came from.
\<close>

lemma civil_from_days_fields:
  obtains y m d where "civil_from_days z = (y, m, d)" "1 \<le> m" "m \<le> 12" "1 \<le> d"
    "400 * ((z + 719468) div 146097) \<le> y" "days_from_civil y m d = z"
proof -
  define z1 where "z1 = z + 719468"
  define era where "era = z1 div 146097"
  define doe where "doe = z1 mod 146097"
  define yoe where "yoe = scaledDay doe div 365"
  define doy where "doy = doe - (365 * yoe + yoe div 4 - yoe div 100)"
  define mp where "mp = (5 * doy + 2) div 153"
  define d where "d = doy - (153 * mp + 2) div 5 + 1"
  define m where "m = (if mp < 10 then mp + 3 else mp - 9)"
  define y where "y = yoe + era * 400"
  have doe: "0 \<le> doe" "doe \<le> 146096"
    by (simp_all add: doe_def)
  from year_of_era [OF doe]
  have yoe: "0 \<le> yoe" "yoe \<le> 399" "yearStart yoe \<le> doe" "doe < yearStart (yoe + 1)"
    by (simp_all add: yoe_def)
  from yoe(1,2) have y400: "yoe div 400 = 0"
    by simp
  have start: "yearStart yoe = 365 * yoe + yoe div 4 - yoe div 100"
    by (simp add: yearStart_def y400)
  have doy: "0 \<le> doy" "doy \<le> 366"
    using yoe(3,4) yearStart_step [of yoe] by (simp_all add: doy_def start [symmetric])
  have mp: "0 \<le> mp" "mp \<le> 11"
    using doy unfolding mp_def by linarith+
  have m: "1 \<le> m" "m \<le> 12"
    using mp by (simp_all add: m_def)
  have "(153 * mp + 2) div 5 \<le> doy"
    unfolding mp_def by linarith
  then have d: "1 \<le> d"
    by (simp add: d_def)
  define Y where "Y = (if m \<le> 2 then y + 1 else y)"
  have civil: "civil_from_days z = (Y, m, d)"
    unfolding civil_from_days_def Let_def Y_def z1_def era_def doe_def yoe_def doy_def mp_def d_def
      m_def y_def scaledDay_def
    by (rule refl)
  have mpback: "(if m > 2 then m - 3 else m + 9) = mp"
    using mp by (auto simp: m_def)
  have yback: "(if m \<le> 2 then Y - 1 else Y) = y"
    by (simp add: Y_def)
  have era_back: "y div 400 = era" "y mod 400 = yoe"
    using yoe(1,2) by (simp_all add: y_def)
  have "days_from_civil Y m d =
      era * 146097 + (yoe * 365 + yoe div 4 - yoe div 100 + ((153 * mp + 2) div 5 + d - 1)) - 719468"
    unfolding days_from_civil_def Let_def yback mpback era_back
    by (rule refl)
  also have "\<dots> = era * 146097 + doe - 719468"
    by (simp add: d_def doy_def)
  also have "\<dots> = z"
    by (simp add: era_def doe_def z1_def)
  finally have inverse: "days_from_civil Y m d = z" .
  have "400 * ((z + 719468) div 146097) \<le> Y"
    using yoe(1) by (simp add: Y_def y_def era_def z1_def)
  with civil m d inverse show ?thesis
    by (intro that [of Y m d]) auto
qed

text \<open>The text of a key splits and reads back to the numbers it was written from.\<close>

lemma ten: "(k::nat) < 10 \<Longrightarrow> k = 0 \<or> k = 1 \<or> k = 2 \<or> k = 3 \<or> k = 4 \<or> k = 5 \<or> k = 6 \<or> k = 7 \<or> k = 8 \<or> k = 9"
  by arith


lemma digitsValue_zeros: "digitsValue (replicate k CHR ''0'' @ s) = digitsValue s"
proof -
  have zero: "digit_val CHR ''0'' = 0"
    by (simp add: digit_val_def)
  have "foldl (\<lambda>acc c. 10 * acc + digit_val c) 0 (replicate k CHR ''0'') = 0"
    by (induction k) (simp_all add: zero)
  then show ?thesis
    by (simp add: digitsValue_def)
qed
lemma split_dash_plain: "CHR ''-'' \<notin> set s \<Longrightarrow> split_dash s = [s]"
  by (induction s) auto

lemma split_dash_piece:
  "CHR ''-'' \<notin> set a \<Longrightarrow> split_dash (a @ CHR ''-'' # rest) = a # split_dash rest"
  by (induction a) auto

lemma digit_char_facts:
  assumes "k < 10"
  shows "isDigit (digit_char k)" "digit_char k \<noteq> CHR ''-''" "digit_val (digit_char k) = k"
  using ten [OF assms]
  by (elim disjE; simp add: digit_char_def isDigit_def digit_val_def)+

lemma digitsValue_snoc: "digitsValue (s @ [c]) = 10 * digitsValue s + digit_val c"
  by (simp add: digitsValue_def)

lemma padStart2_facts:
  assumes "list_all isDigit s" "CHR ''-'' \<notin> set s"
  shows "list_all isDigit (padStart2 s)" "CHR ''-'' \<notin> set (padStart2 s)"
    "digitsValue (padStart2 s) = digitsValue s"
proof -
  have "isDigit CHR ''0''"
    by (simp add: isDigit_def)
  then show "list_all isDigit (padStart2 s)"
    using assms(1) by (auto simp: padStart2_def list_all_iff)
  show "CHR ''-'' \<notin> set (padStart2 s)"
    using assms(2) by (simp add: padStart2_def)
  show "digitsValue (padStart2 s) = digitsValue s"
    by (simp add: padStart2_def digitsValue_zeros)
qed

lemma decimal_facts:
  "list_all isDigit (decimal n) \<and> CHR ''-'' \<notin> set (decimal n) \<and> digitsValue (decimal n) = n"
proof (induction n rule: decimal.induct)
  case (1 n)
  show ?case
  proof (cases "n < 10")
    case True
    then have "decimal n = [digit_char n]"
      by (subst decimal.simps) simp
    with digit_char_facts [OF True] show ?thesis
      by (simp add: digitsValue_def)
  next
    case False
    then have unfold: "decimal n = decimal (n div 10) @ [digit_char (n mod 10)]"
      by (subst decimal.simps) simp
    have "n mod 10 < 10"
      by simp
    from digit_char_facts [OF this] 1 [OF False] show ?thesis
      unfolding unfold by (simp add: digitsValue_snoc)
  qed
qed

lemma Number_text_digits:
  "list_all isDigit s \<Longrightarrow> Number_text (Some s) = Some (int (digitsValue s))"
  by (simp add: Number_text_def digitsValue_def)

lemma parse_formatKey:
  assumes "0 \<le> y" "0 \<le> m" "0 \<le> d"
  shows "fromDateKeyToUtcDate (formatKey (y, m, d)) = Date_UTC_days y (m - 1) d"
proof -
  let ?ys = "decimal (nat y)" and ?ms = "padStart2 (decimal (nat m))" and ?ds = "padStart2 (decimal (nat d))"
  have key: "formatKey (y, m, d) = ?ys @ CHR ''-'' # (?ms @ CHR ''-'' # ?ds)"
    using assms by (simp add: formatKey_def int_text_def)
  note ys = decimal_facts [of "nat y"]
  note ms = padStart2_facts [of "decimal (nat m)"] decimal_facts [of "nat m"]
  note ds = padStart2_facts [of "decimal (nat d)"] decimal_facts [of "nat d"]
  have parts: "split_dash (formatKey (y, m, d)) = [?ys, ?ms, ?ds]"
    unfolding key using ys ms ds by (simp add: split_dash_piece split_dash_plain)
  have "Number_text (Some ?ys) = Some y" "Number_text (Some ?ms) = Some m" "Number_text (Some ?ds) = Some d"
    using ys ms ds assms by (simp_all add: Number_text_digits)
  then show ?thesis
    by (simp add: fromDateKeyToUtcDate_def parts nth_opt_def)
qed

lemma Date_UTC_days_valid:
  assumes "100 \<le> y" "1 \<le> m" "m \<le> 12"
  shows "Date_UTC_days y (m - 1) d = timeClipDays (days_from_civil y m d)"
proof -
  have "(m - 1) div 12 = 0" "(m - 1) mod 12 = m - 1"
    using assms by simp_all
  moreover have "days_from_civil y m 1 + d - 1 = days_from_civil y m d"
    by (simp add: days_from_civil_def Let_def)
  ultimately show ?thesis
    using assms by (simp add: Date_UTC_days_def Let_def)
qed

lemma getYesterdayKey_day:
  assumes "0 \<le> z" "z \<le> 100000000"
  shows "getYesterdayKey (formatKey (civil_from_days z)) = formatKey (civil_from_days (z - 1))"
proof -
  obtain y m d where c: "civil_from_days z = (y, m, d)" "1 \<le> m" "m \<le> 12" "1 \<le> d"
    "400 * ((z + 719468) div 146097) \<le> y" "days_from_civil y m d = z"
    by (rule civil_from_days_fields)
  have "4 \<le> (z + 719468) div 146097"
    using assms(1) by linarith
  with c(5) have y: "100 \<le> y"
    by linarith
  have "fromDateKeyToUtcDate (formatKey (y, m, d)) = timeClipDays z"
    using parse_formatKey [of y m d] Date_UTC_days_valid [OF y c(2,3), of d] c y by simp
  moreover have "timeClipDays z = Some z" "timeClipDays (z - 1) = Some (z - 1)"
    using assms by (simp_all add: timeClipDays_def msPerDay_def abs_if)
  ultimately show ?thesis
    by (simp add: getYesterdayKey_def c(1))
qed

lemma getYesterdayKey_today:
  assumes "0 \<le> now" "now \<le> 8000000000000000"
  shows "getYesterdayKey (getTodayKey now) = getTodayKey (now - msPerDay)"
proof -
  define z where "z = (now + 32400000) div 86400000"
  have range: "0 \<le> z" "z \<le> 100000000"
    using assms unfolding z_def by linarith+
  have "(now - 86400000 + 32400000) div 86400000 = z - 1"
    unfolding z_def by linarith
  with getYesterdayKey_day [OF range] show ?thesis
    by (simp add: getTodayKey_def toDateKeyInTokyo_def tokyoOffsetMinutes_def msPerDay_def z_def)
qed

section \<open>Records for a new date\<close>

lemma createRecordForDate_fresh:
  assumes "records dateKey = None"
  shows "createRecordForDate dateKey records settings =
     \<lparr> date = dateKey, checks = DEFAULT_CHECKS,
       carryInSeconds =
         (case records (getYesterdayKey dateKey) of
            None \<Rightarrow> 0
          | Some yesterday \<Rightarrow>
              (case remainingSeconds yesterday of
                 None \<Rightarrow> 0
               | Some r \<Rightarrow> if carryOverEnabled settings \<and> 0 < r then r else 0)),
       lockedAllocationMinutes = None, remainingSeconds = None, isRunning = False,
       isAlarming = False, lastStartedAt = None \<rparr>"
  using assms by (auto simp: createRecordForDate_def Let_def split: option.splits)

lemma getYesterdayKey_dayKey:
  "0 \<le> z \<Longrightarrow> z \<le> 100000000 \<Longrightarrow> getYesterdayKey (dayKey z) = dayKey (z - 1)"
  by (simp add: dayKey_def getYesterdayKey_day)

lemma getTodayKey_dayKey: "getTodayKey now = dayKey ((now + 32400000) div 86400000)"
  by (simp add: getTodayKey_def toDateKeyInTokyo_def dayKey_def tokyoOffsetMinutes_def msPerDay_def)

text \<open>
  C4. For a date without an entry in the records, \<open>createRecordForDate\<close> returns a fresh
  record: the date key, all four checks cleared, no locked allocation, no remaining
  seconds, no anchor, not running, not alarming. For the key of a day \<open>z\<close> (from 1970 to
  the end of the range of \<open>Date\<close>) its carry-in seconds are the remaining seconds of the
  entry under the key of day \<open>z - 1\<close>, the calendar day before, when carry-over is enabled
  and that entry exists with more than 0 seconds left, and 0 when carry-over is disabled,
  the entry is missing, or it has no or no positive remaining seconds. The key the page
  passes, \<open>getTodayKey\<close> of an instant, is the key of the Tokyo day of that instant, and its
  \<open>getYesterdayKey\<close> is the \<open>getTodayKey\<close> of the instant a day earlier. For a date with
  an entry, the entry's fields are returned with the alarm flag made a boolean: false for a
  missing flag, the truthiness of a stored one. The function only reads the records.
\<close>

theorem createRecordForDate_carry:
  "(records dateKey = None \<longrightarrow>
      (let fresh = createRecordForDate dateKey records settings in
         date fresh = dateKey
         \<and> checks fresh = \<lparr> prep = False, homework = False, sleep = False, leave = False \<rparr>
         \<and> lockedAllocationMinutes fresh = None \<and> remainingSeconds fresh = None
         \<and> lastStartedAt fresh = None \<and> \<not> isRunning fresh \<and> \<not> isAlarming fresh))
   \<and> (0 \<le> z \<and> z \<le> 100000000 \<and> records (dayKey z) = None \<longrightarrow>
      (let fresh = createRecordForDate (dayKey z) records settings in
         (\<forall>y r. carryOverEnabled settings \<and> records (dayKey (z - 1)) = Some y
                \<and> remainingSeconds y = Some r \<and> 0 < r \<longrightarrow> carryInSeconds fresh = r)
         \<and> (\<not> carryOverEnabled settings \<or> records (dayKey (z - 1)) = None
              \<or> (\<exists>y. records (dayKey (z - 1)) = Some y
                    \<and> (remainingSeconds y = None \<or> (\<exists>r. remainingSeconds y = Some r \<and> r \<le> 0)))
              \<longrightarrow> carryInSeconds fresh = 0)))
   \<and> (0 \<le> now \<and> now \<le> 8000000000000000 \<longrightarrow>
        getTodayKey now = dayKey ((now + 32400000) div 86400000)
        \<and> getTodayKey (now - msPerDay) = dayKey ((now + 32400000) div 86400000 - 1)
        \<and> getYesterdayKey (getTodayKey now) = getTodayKey (now - msPerDay))
   \<and> (\<forall>existing. records dateKey = Some existing \<longrightarrow>
         createRecordForDate dateKey records settings =
           \<lparr> date = date existing, checks = checks existing,
             carryInSeconds = carryInSeconds existing,
             lockedAllocationMinutes = lockedAllocationMinutes existing,
             remainingSeconds = remainingSeconds existing, isRunning = isRunning existing,
             isAlarming = (case isAlarming existing of None \<Rightarrow> False | Some flag \<Rightarrow> truthy flag),
             lastStartedAt = lastStartedAt existing \<rparr>)"
proof -
  have fresh: "records dateKey = None \<longrightarrow>
      (let fresh = createRecordForDate dateKey records settings in
         date fresh = dateKey
         \<and> checks fresh = \<lparr> prep = False, homework = False, sleep = False, leave = False \<rparr>
         \<and> lockedAllocationMinutes fresh = None \<and> remainingSeconds fresh = None
         \<and> lastStartedAt fresh = None \<and> \<not> isRunning fresh \<and> \<not> isAlarming fresh)"
    by (simp add: createRecordForDate_fresh DEFAULT_CHECKS_def)
  have carry: "0 \<le> z \<and> z \<le> 100000000 \<and> records (dayKey z) = None \<longrightarrow>
      (let fresh = createRecordForDate (dayKey z) records settings in
         (\<forall>y r. carryOverEnabled settings \<and> records (dayKey (z - 1)) = Some y
                \<and> remainingSeconds y = Some r \<and> 0 < r \<longrightarrow> carryInSeconds fresh = r)
         \<and> (\<not> carryOverEnabled settings \<or> records (dayKey (z - 1)) = None
              \<or> (\<exists>y. records (dayKey (z - 1)) = Some y
                    \<and> (remainingSeconds y = None \<or> (\<exists>r. remainingSeconds y = Some r \<and> r \<le> 0)))
              \<longrightarrow> carryInSeconds fresh = 0))"
    by (auto simp: createRecordForDate_fresh getYesterdayKey_dayKey split: option.splits)
  have keys: "0 \<le> now \<and> now \<le> 8000000000000000 \<longrightarrow>
        getTodayKey now = dayKey ((now + 32400000) div 86400000)
        \<and> getTodayKey (now - msPerDay) = dayKey ((now + 32400000) div 86400000 - 1)
        \<and> getYesterdayKey (getTodayKey now) = getTodayKey (now - msPerDay)"
  proof
    assume range: "0 \<le> now \<and> now \<le> 8000000000000000"
    have "(now - 86400000 + 32400000) div 86400000 = (now + 32400000) div 86400000 - 1"
      by linarith
    then have "getTodayKey (now - msPerDay) = dayKey ((now + 32400000) div 86400000 - 1)"
      by (simp add: getTodayKey_dayKey msPerDay_def)
    moreover from range have "getYesterdayKey (getTodayKey now) = getTodayKey (now - msPerDay)"
      by (intro getYesterdayKey_today) auto
    ultimately show "getTodayKey now = dayKey ((now + 32400000) div 86400000)
        \<and> getTodayKey (now - msPerDay) = dayKey ((now + 32400000) div 86400000 - 1)
        \<and> getYesterdayKey (getTodayKey now) = getTodayKey (now - msPerDay)"
      using getTodayKey_dayKey [of now] by blast
  qed
  have existing: "\<forall>existing. records dateKey = Some existing \<longrightarrow>
         createRecordForDate dateKey records settings =
           \<lparr> date = date existing, checks = checks existing,
             carryInSeconds = carryInSeconds existing,
             lockedAllocationMinutes = lockedAllocationMinutes existing,
             remainingSeconds = remainingSeconds existing, isRunning = isRunning existing,
             isAlarming = (case isAlarming existing of None \<Rightarrow> False | Some flag \<Rightarrow> truthy flag),
             lastStartedAt = lastStartedAt existing \<rparr>"
    by (simp add: createRecordForDate_def Boolean_js_def)
  show ?thesis
    by (rule conjI [OF fresh conjI [OF carry conjI [OF keys existing]]])
qed

theorem createRecordForDate_carry_witness:
  "dayKey 20513 = ''2026-03-01'' \<and> dayKey 20512 = ''2026-02-28''
   \<and> carryInSeconds (createRecordForDate ''2026-03-01'' exampleRecords (DEFAULT_SETTINGS\<lparr>carryOverEnabled := True\<rparr>)) = 600
   \<and> carryInSeconds (createRecordForDate ''2026-03-01'' exampleRecords DEFAULT_SETTINGS) = 0
   \<and> \<not> isAlarming (createRecordForDate ''2026-02-28'' exampleRecords DEFAULT_SETTINGS)
   \<and> remainingSeconds (createRecordForDate ''2026-02-28'' exampleRecords DEFAULT_SETTINGS) = Some 600
   \<and> getYesterdayKey (getTodayKey 1771083000000) = getTodayKey 1770996600000"
proof -
  let ?on = "DEFAULT_SETTINGS\<lparr>carryOverEnabled := True\<rparr>"
  have keys: "dayKey 20513 = ''2026-03-01''" "dayKey 20512 = ''2026-02-28''"
    by code_simp+
  have none: "exampleRecords (dayKey 20513) = None"
    by (simp add: keys exampleRecords_def)
  have some: "exampleRecords (dayKey (20513 - 1)) = Some exampleYesterday"
    "exampleRecords ''2026-02-28'' = Some exampleYesterday"
    by (simp_all add: keys exampleRecords_def)
  have rem: "remainingSeconds exampleYesterday = Some 600" "isAlarming exampleYesterday = None"
    by (simp_all add: exampleYesterday_def)
  have flags: "carryOverEnabled ?on" "\<not> carryOverEnabled DEFAULT_SETTINGS"
    by (simp_all add: DEFAULT_SETTINGS_def)
  from createRecordForDate_carry [where records = exampleRecords and z = 20513 and settings = ?on]
    none some(1) rem(1) flags(1)
  have one: "carryInSeconds (createRecordForDate (dayKey 20513) exampleRecords ?on) = 600"
    by (simp add: Let_def)
  from createRecordForDate_carry [where records = exampleRecords and z = 20513
      and settings = DEFAULT_SETTINGS] none flags(2)
  have two: "carryInSeconds (createRecordForDate (dayKey 20513) exampleRecords DEFAULT_SETTINGS) = 0"
    by (simp add: Let_def)
  from createRecordForDate_carry [where records = exampleRecords and dateKey = "''2026-02-28''"
      and settings = DEFAULT_SETTINGS] some(2)
  have three: "createRecordForDate ''2026-02-28'' exampleRecords DEFAULT_SETTINGS =
      \<lparr> date = date exampleYesterday, checks = checks exampleYesterday,
        carryInSeconds = carryInSeconds exampleYesterday,
        lockedAllocationMinutes = lockedAllocationMinutes exampleYesterday,
        remainingSeconds = remainingSeconds exampleYesterday, isRunning = isRunning exampleYesterday,
        isAlarming = (case isAlarming exampleYesterday of None \<Rightarrow> False | Some flag \<Rightarrow> truthy flag),
        lastStartedAt = lastStartedAt exampleYesterday \<rparr>"
    by blast
  have range: "(0::int) \<le> 1771083000000 \<and> (1771083000000::int) \<le> 8000000000000000"
    by simp
  from createRecordForDate_carry [where records = exampleRecords and dateKey = "''2026-02-28''"
      and settings = DEFAULT_SETTINGS and z = 0 and now = 1771083000000] range
  have four: "getYesterdayKey (getTodayKey 1771083000000) = getTodayKey (1771083000000 - msPerDay)"
    by blast
  show ?thesis
    using one two four keys by (simp add: three rem msPerDay_def)
qed

section \<open>Loaded settings\<close>

lemma clampRound_bounds: "lo \<le> hi \<Longrightarrow> lo \<le> clampRound lo hi x \<and> clampRound lo hi x \<le> hi"
  by (cases x) auto

lemma loadNumber_bounds:
  "lo \<le> hi \<Longrightarrow> lo \<le> d \<Longrightarrow> d \<le> hi \<Longrightarrow> lo \<le> loadNumber lo hi d v \<and> loadNumber lo hi d v \<le> hi"
  using clampRound_bounds [of lo hi]
  by (auto simp: loadNumber_def split: option.splits json.splits)

lemma loadNumber_number: "loadNumber lo hi d (Some (JNum (Fin q))) = max lo (min hi \<lfloor>q + 1 / 2\<rfloor>)"
  by (simp add: loadNumber_def)

lemma loadNumber_other: "\<forall>x. v \<noteq> Some (JNum x) \<Longrightarrow> loadNumber lo hi d v = d"
  by (auto simp: loadNumber_def split: option.splits json.splits)

lemma loadNumber_facts:
  assumes "lo \<le> hi" "lo \<le> d" "d \<le> hi"
  shows "lo \<le> loadNumber lo hi d v \<and> loadNumber lo hi d v \<le> hi
     \<and> (\<forall>q. v = Some (JNum (Fin q)) \<longrightarrow> loadNumber lo hi d v = max lo (min hi \<lfloor>q + 1 / 2\<rfloor>))
     \<and> ((\<forall>x. v \<noteq> Some (JNum x)) \<longrightarrow> loadNumber lo hi d v = d)"
  using loadNumber_bounds [OF assms, of v] loadNumber_other [of v lo hi d]
  by (auto simp: loadNumber_number)

text \<open>When the PIN test throws, the \<open>catch\<close> of either loader returns the defaults.\<close>

lemma loadSettings_throws:
  assumes "pinTestThrows raw"
  shows "loadSettings raw = DEFAULT_SETTINGS"
    and "SettingsPage_loadSettings raw = SettingsPage_DEFAULT_SETTINGS"
  using assms
  by (cases raw; simp add: pinTestThrows_def storedField_def loadSettings_def
      SettingsPage_loadSettings_def split: sum.splits)+

text \<open>Otherwise each field comes from the stored value of that field alone.\<close>

lemma loadSettings_fields:
  assumes "\<not> pinTestThrows raw"
  shows "alarmVolume (loadSettings raw) = loadNumber 0 100 70 (storedField raw ''alarmVolume'')"
    "fullCompletionMinutes (loadSettings raw) = loadNumber 1 180 45 (storedField raw ''fullCompletionMinutes'')"
    "fallbackMinutes (loadSettings raw) = loadNumber 1 180 15 (storedField raw ''fallbackMinutes'')"
    "fullCompletionMinutesWeekend (loadSettings raw) =
       loadNumber 1 180 45 (storedField raw ''fullCompletionMinutesWeekend'')"
    "fallbackMinutesWeekend (loadSettings raw) = loadNumber 1 180 15 (storedField raw ''fallbackMinutesWeekend'')"
    "loadPin (storedField raw ''parentPin'') = Inr (parentPin (loadSettings raw))"
  using assms
  by (cases raw; simp add: pinTestThrows_def loadSettings_def storedField_def DEFAULT_SETTINGS_def
      loadNumber_def loadPin_def split: sum.splits)+

lemma loadSettings_ranges:
  "0 \<le> alarmVolume (loadSettings raw) \<and> alarmVolume (loadSettings raw) \<le> 100
   \<and> 1 \<le> fullCompletionMinutes (loadSettings raw) \<and> fullCompletionMinutes (loadSettings raw) \<le> 180
   \<and> 1 \<le> fallbackMinutes (loadSettings raw) \<and> fallbackMinutes (loadSettings raw) \<le> 180
   \<and> 1 \<le> fullCompletionMinutesWeekend (loadSettings raw) \<and> fullCompletionMinutesWeekend (loadSettings raw) \<le> 180
   \<and> 1 \<le> fallbackMinutesWeekend (loadSettings raw) \<and> fallbackMinutesWeekend (loadSettings raw) \<le> 180"
proof (cases "pinTestThrows raw")
  case True
  then show ?thesis
    by (simp add: loadSettings_throws DEFAULT_SETTINGS_def)
next
  case False
  then show ?thesis
    by (simp add: loadSettings_fields loadNumber_bounds)
qed

text \<open>The loader of the settings page returns the six fields that the main page's loader returns.\<close>

lemma loadSettings_truncate:
  "SettingsPage_loadSettings raw = SettingsPage_Settings.truncate (loadSettings raw)"
  by (cases raw)
    (simp_all add: loadSettings_def SettingsPage_loadSettings_def DEFAULT_SETTINGS_def
      SettingsPage_DEFAULT_SETTINGS_def SettingsPage_Settings.truncate_def split: sum.splits)

lemma SettingsPage_loadSettings_ranges:
  "0 \<le> alarmVolume (SettingsPage_loadSettings raw) \<and> alarmVolume (SettingsPage_loadSettings raw) \<le> 100
   \<and> 1 \<le> fullCompletionMinutes (SettingsPage_loadSettings raw)
   \<and> fullCompletionMinutes (SettingsPage_loadSettings raw) \<le> 180
   \<and> 1 \<le> fallbackMinutes (SettingsPage_loadSettings raw)
   \<and> fallbackMinutes (SettingsPage_loadSettings raw) \<le> 180"
  using loadSettings_ranges [of raw]
  by (simp add: loadSettings_truncate SettingsPage_Settings.truncate_def)

lemma loadPin_text:
  assumes "\<forall>v. stored = Some v \<longrightarrow> (\<exists>t. v = JStr t)"
  shows "\<exists>q. loadPin stored = Inr (JStr q) \<and> fourDigits q
     \<and> (\<forall>t. stored = Some (JStr t) \<and> fourDigits t \<longrightarrow> q = t)
     \<and> ((\<forall>t. stored = Some (JStr t) \<longrightarrow> \<not> fourDigits t) \<longrightarrow> q = ''1234'')"
proof (cases stored)
  case None
  then show ?thesis
    by (simp add: loadPin_def fourDigits_def isDigit_def)
next
  case (Some v)
  with assms obtain t where "v = JStr t"
    by auto
  with Some show ?thesis
    by (auto simp: loadPin_def testFourDigits_def fourDigits_def isDigit_def)
qed

lemma loadSettings_numericFields:
  assumes "\<not> pinTestThrows raw"
  shows "\<forall>(k, field, lo, hi) \<in> set numericFields.
      (\<forall>q. storedField raw k = Some (JNum (Fin q)) \<longrightarrow>
         field (loadSettings raw) = max lo (min hi \<lfloor>q + 1 / 2\<rfloor>))
      \<and> (storedField raw k = Some (JNum PosInf) \<longrightarrow> field (loadSettings raw) = hi)
      \<and> (storedField raw k = Some (JNum NegInf) \<longrightarrow> field (loadSettings raw) = lo)
      \<and> ((\<forall>x. storedField raw k \<noteq> Some (JNum x)) \<longrightarrow>
         field (loadSettings raw) = field DEFAULT_SETTINGS)"
  unfolding numericFields_def
  using loadNumber_facts [of 0 100 70 "storedField raw ''alarmVolume''"]
    loadNumber_facts [of 1 180 45 "storedField raw ''fullCompletionMinutes''"]
    loadNumber_facts [of 1 180 15 "storedField raw ''fallbackMinutes''"]
    loadNumber_facts [of 1 180 45 "storedField raw ''fullCompletionMinutesWeekend''"]
    loadNumber_facts [of 1 180 15 "storedField raw ''fallbackMinutesWeekend''"]
  by (simp add: loadSettings_fields [OF assms] DEFAULT_SETTINGS_def) (simp add: loadNumber_def)

text \<open>The PIN test throws exactly on a truthy stored PIN whose conversion to text throws.\<close>

lemma pinTestThrows_iff:
  "pinTestThrows raw =
     (\<exists>v. storedField raw ''parentPin'' = Some v \<and> truthy v \<and> jsToString v = Inl TypeError)"
  by (cases "storedField raw ''parentPin''")
    (auto simp: pinTestThrows_def loadPin_def testFourDigits_def split: sum.splits option.splits,
      metis js_error.exhaust)

section \<open>Allocation\<close>

text \<open>
  C8. \<open>allocationFromChecks\<close> returns the full-completion minutes of the weekday or weekend
  bucket when all four checks are true and the fallback minutes of that bucket otherwise;
  where the two values of the bucket differ, the result is the full-completion value exactly
  when all four checks are true. On settings that \<open>loadSettings\<close> returns (the only settings
  the main page holds besides the defaults, which are \<open>loadSettings NoItem\<close>) the result lies
  in 1..180.
\<close>

theorem allocation_by_checklist:
  "(prep c \<and> homework c \<and> sleep c \<and> leave c \<longrightarrow>
      allocationFromChecks c settings weekend =
        (if weekend then fullCompletionMinutesWeekend settings else fullCompletionMinutes settings))
   \<and> (\<not> (prep c \<and> homework c \<and> sleep c \<and> leave c) \<longrightarrow>
      allocationFromChecks c settings weekend =
        (if weekend then fallbackMinutesWeekend settings else fallbackMinutes settings))
   \<and> ((if weekend then fullCompletionMinutesWeekend settings else fullCompletionMinutes settings)
        \<noteq> (if weekend then fallbackMinutesWeekend settings else fallbackMinutes settings) \<longrightarrow>
      (allocationFromChecks c settings weekend =
         (if weekend then fullCompletionMinutesWeekend settings else fullCompletionMinutes settings))
        = (prep c \<and> homework c \<and> sleep c \<and> leave c))
   \<and> 1 \<le> allocationFromChecks c (loadSettings raw) weekend
   \<and> allocationFromChecks c (loadSettings raw) weekend \<le> 180"
  using loadSettings_ranges [of raw]
  by (simp add: allocationFromChecks_def allChecked_def)

theorem allocation_by_checklist_witness:
  "allocationFromChecks \<lparr> prep = True, homework = True, sleep = True, leave = True \<rparr>
      (loadSettings exampleWeekendItem) True = 90
   \<and> allocationFromChecks \<lparr> prep = True, homework = False, sleep = True, leave = True \<rparr>
      (loadSettings exampleWeekendItem) True = 30
   \<and> allocationFromChecks \<lparr> prep = True, homework = False, sleep = True, leave = True \<rparr>
      (loadSettings exampleWeekendItem) False = 15"
proof -
  let ?all = "\<lparr> prep = True, homework = True, sleep = True, leave = True \<rparr>"
  let ?some = "\<lparr> prep = True, homework = False, sleep = True, leave = True \<rparr>"
  have v: "fullCompletionMinutesWeekend (loadSettings exampleWeekendItem) = 90"
    "fallbackMinutesWeekend (loadSettings exampleWeekendItem) = 30"
    "fallbackMinutes (loadSettings exampleWeekendItem) = 15"
    by code_simp+
  from allocation_by_checklist [where c = ?all and settings = "loadSettings exampleWeekendItem"
      and weekend = True]
    allocation_by_checklist [where c = ?some and settings = "loadSettings exampleWeekendItem"
      and weekend = True]
    allocation_by_checklist [where c = ?some and settings = "loadSettings exampleWeekendItem"
      and weekend = False]
  show ?thesis by (simp add: v)
qed

section \<open>What the loaders let through\<close>

text \<open>
  C9, as the claim has it, fails where it says that a bad value is replaced by the default:
  a stored 500 for the full-completion minutes comes back as the bound 180, not as the
  default 45.
\<close>

theorem loadSettings_clamps_counterexample:
  "fullCompletionMinutes (loadSettings exampleTooLarge) = 180
   \<and> fullCompletionMinutes (loadSettings exampleTooLarge) \<noteq> fullCompletionMinutes DEFAULT_SETTINGS"
  by code_simp

text \<open>
  The PIN test coerces its argument to text before matching, and the loader then returns
  the stored value itself: a one-element array around a four-digit text passes.
\<close>

lemma loadSettings_keeps_array_pin:
  "parentPin (loadSettings exampleArrayPin) = JArr [JStr ''1234'']"
  by code_simp

text \<open>
  C9, amended. For every stored item both loaders return minute fields in 1..180 and a
  volume in 0..100. A missing or unparsable item gives the defaults, and so does an item on
  which the PIN test throws (a stored PIN that is an object with a \<open>toString\<close> property of
  its own, or an array holding one): the \<open>catch\<close> then discards every field. On any other
  item a stored finite number is rounded and cut to the nearest bound (not replaced by the
  default), an infinity gives the bound on its side, and a stored value that is not a number
  gives the default of its field. The settings page's loader returns the six fields the
  main page's loader returns. When the stored PIN is absent or a text, the test does not
  throw and the PIN returned is a text of exactly four digits: the stored one if it has four
  digits, else 1234.
\<close>

theorem loadSettings_normalises:
  "(0 \<le> alarmVolume (loadSettings raw) \<and> alarmVolume (loadSettings raw) \<le> 100
    \<and> 1 \<le> fullCompletionMinutes (loadSettings raw) \<and> fullCompletionMinutes (loadSettings raw) \<le> 180
    \<and> 1 \<le> fallbackMinutes (loadSettings raw) \<and> fallbackMinutes (loadSettings raw) \<le> 180
    \<and> 1 \<le> fullCompletionMinutesWeekend (loadSettings raw)
    \<and> fullCompletionMinutesWeekend (loadSettings raw) \<le> 180
    \<and> 1 \<le> fallbackMinutesWeekend (loadSettings raw)
    \<and> fallbackMinutesWeekend (loadSettings raw) \<le> 180)
   \<and> (0 \<le> alarmVolume (SettingsPage_loadSettings raw) \<and> alarmVolume (SettingsPage_loadSettings raw) \<le> 100
    \<and> 1 \<le> fullCompletionMinutes (SettingsPage_loadSettings raw)
    \<and> fullCompletionMinutes (SettingsPage_loadSettings raw) \<le> 180
    \<and> 1 \<le> fallbackMinutes (SettingsPage_loadSettings raw)
    \<and> fallbackMinutes (SettingsPage_loadSettings raw) \<le> 180)
   \<and> (raw = NoItem \<or> raw = Unparsable \<or> pinTestThrows raw \<longrightarrow>
        loadSettings raw = DEFAULT_SETTINGS
        \<and> SettingsPage_loadSettings raw = SettingsPage_DEFAULT_SETTINGS)
   \<and> (\<not> pinTestThrows raw \<longrightarrow>
        (\<forall>(k, field, lo, hi) \<in> set numericFields.
          (\<forall>q. storedField raw k = Some (JNum (Fin q)) \<longrightarrow>
             field (loadSettings raw) = max lo (min hi \<lfloor>q + 1 / 2\<rfloor>))
          \<and> (storedField raw k = Some (JNum PosInf) \<longrightarrow> field (loadSettings raw) = hi)
          \<and> (storedField raw k = Some (JNum NegInf) \<longrightarrow> field (loadSettings raw) = lo)
          \<and> ((\<forall>x. storedField raw k \<noteq> Some (JNum x)) \<longrightarrow>
             field (loadSettings raw) = field DEFAULT_SETTINGS)))
   \<and> SettingsPage_loadSettings raw = SettingsPage_Settings.truncate (loadSettings raw)
   \<and> ((\<forall>v. storedField raw ''parentPin'' = Some v \<longrightarrow> (\<exists>t. v = JStr t)) \<longrightarrow>
        \<not> pinTestThrows raw
        \<and> (\<exists>q. parentPin (loadSettings raw) = JStr q \<and> fourDigits q
           \<and> (\<forall>t. storedField raw ''parentPin'' = Some (JStr t) \<and> fourDigits t \<longrightarrow> q = t)
           \<and> ((\<forall>t. storedField raw ''parentPin'' = Some (JStr t) \<longrightarrow> \<not> fourDigits t) \<longrightarrow> q = ''1234'')))"
proof -
  note r1 = loadSettings_ranges [of raw]
  note r2 = SettingsPage_loadSettings_ranges [of raw]
  have r3: "raw = NoItem \<or> raw = Unparsable \<or> pinTestThrows raw \<longrightarrow>
        loadSettings raw = DEFAULT_SETTINGS
        \<and> SettingsPage_loadSettings raw = SettingsPage_DEFAULT_SETTINGS"
    using loadSettings_throws [of raw]
    by (auto simp: loadSettings_def SettingsPage_loadSettings_def)
  have r4: "\<not> pinTestThrows raw \<longrightarrow>
        (\<forall>(k, field, lo, hi) \<in> set numericFields.
          (\<forall>q. storedField raw k = Some (JNum (Fin q)) \<longrightarrow>
             field (loadSettings raw) = max lo (min hi \<lfloor>q + 1 / 2\<rfloor>))
          \<and> (storedField raw k = Some (JNum PosInf) \<longrightarrow> field (loadSettings raw) = hi)
          \<and> (storedField raw k = Some (JNum NegInf) \<longrightarrow> field (loadSettings raw) = lo)
          \<and> ((\<forall>x. storedField raw k \<noteq> Some (JNum x)) \<longrightarrow>
             field (loadSettings raw) = field DEFAULT_SETTINGS))"
    using loadSettings_numericFields [of raw] by blast
  note r5 = loadSettings_truncate [of raw]
  have r6: "(\<forall>v. storedField raw ''parentPin'' = Some v \<longrightarrow> (\<exists>t. v = JStr t)) \<longrightarrow>
        \<not> pinTestThrows raw
        \<and> (\<exists>q. parentPin (loadSettings raw) = JStr q \<and> fourDigits q
           \<and> (\<forall>t. storedField raw ''parentPin'' = Some (JStr t) \<and> fourDigits t \<longrightarrow> q = t)
           \<and> ((\<forall>t. storedField raw ''parentPin'' = Some (JStr t) \<longrightarrow> \<not> fourDigits t) \<longrightarrow> q = ''1234''))"
  proof
    assume "\<forall>v. storedField raw ''parentPin'' = Some v \<longrightarrow> (\<exists>t. v = JStr t)"
    from loadPin_text [OF this] obtain q where q:
      "loadPin (storedField raw ''parentPin'') = Inr (JStr q)" "fourDigits q"
      "\<forall>t. storedField raw ''parentPin'' = Some (JStr t) \<and> fourDigits t \<longrightarrow> q = t"
      "(\<forall>t. storedField raw ''parentPin'' = Some (JStr t) \<longrightarrow> \<not> fourDigits t) \<longrightarrow> q = ''1234''"
      by blast
    from q(1) have quiet: "\<not> pinTestThrows raw"
      by (simp add: pinTestThrows_def)
    from loadSettings_fields(6) [OF quiet] q(1) have "parentPin (loadSettings raw) = JStr q"
      by simp
    with quiet q show "\<not> pinTestThrows raw
        \<and> (\<exists>q. parentPin (loadSettings raw) = JStr q \<and> fourDigits q
           \<and> (\<forall>t. storedField raw ''parentPin'' = Some (JStr t) \<and> fourDigits t \<longrightarrow> q = t)
           \<and> ((\<forall>t. storedField raw ''parentPin'' = Some (JStr t) \<longrightarrow> \<not> fourDigits t) \<longrightarrow> q = ''1234''))"
      by blast
  qed
  show ?thesis
    by (rule conjI [OF r1 conjI [OF r2 conjI [OF r3 conjI [OF r4 conjI [OF r5 r6]]]]])
qed

theorem loadSettings_normalises_witness:
  "alarmVolume (loadSettings examplePayload) = 100
   \<and> fullCompletionMinutes (loadSettings examplePayload) = 1
   \<and> fallbackMinutes (loadSettings examplePayload) = 15
   \<and> fullCompletionMinutesWeekend (loadSettings examplePayload) = 180
   \<and> fallbackMinutesWeekend (loadSettings examplePayload) = 31
   \<and> parentPin (loadSettings examplePayload) = JStr ''1234''
   \<and> loadSettings NoItem = DEFAULT_SETTINGS
   \<and> loadSettings exampleThrowingPin = DEFAULT_SETTINGS"
proof -
  have stored: "storedField examplePayload ''alarmVolume'' = Some (JNum (Fin 250))"
    "storedField examplePayload ''fullCompletionMinutes'' = Some (JNum (Fin (- 3)))"
    "storedField examplePayload ''fallbackMinutes'' = Some (JStr ''20'')"
    "storedField examplePayload ''fullCompletionMinutesWeekend'' = Some (JNum PosInf)"
    "storedField examplePayload ''fallbackMinutesWeekend'' = Some (JNum (Fin (61 / 2)))"
    "storedField examplePayload ''parentPin'' = Some (JStr ''12a4'')"
    by (simp_all add: storedField_def examplePayload_def)
  have rounds: "\<lfloor>(250 :: rat) + 1 / 2\<rfloor> = 250" "\<lfloor>(- 3 :: rat) + 1 / 2\<rfloor> = - 3"
    "\<lfloor>(61 / 2 :: rat) + 1 / 2\<rfloor> = 31"
    by (simp_all add: floor_unique)
  have pinText: "\<forall>v. storedField examplePayload ''parentPin'' = Some v \<longrightarrow> (\<exists>t. v = JStr t)"
    by (simp add: stored)
  have short: "\<forall>t. storedField examplePayload ''parentPin'' = Some (JStr t) \<longrightarrow> \<not> fourDigits t"
    by (simp add: stored fourDigits_def isDigit_def)
  from loadSettings_normalises [of examplePayload] pinText short
  have quiet: "\<not> pinTestThrows examplePayload"
    and pin: "parentPin (loadSettings examplePayload) = JStr ''1234''"
    by blast+
  from loadSettings_normalises [of examplePayload] quiet
  have rows: "\<forall>q. storedField examplePayload ''alarmVolume'' = Some (JNum (Fin q)) \<longrightarrow>
        alarmVolume (loadSettings examplePayload) = max 0 (min 100 \<lfloor>q + 1 / 2\<rfloor>)"
    "\<forall>q. storedField examplePayload ''fullCompletionMinutes'' = Some (JNum (Fin q)) \<longrightarrow>
        fullCompletionMinutes (loadSettings examplePayload) = max 1 (min 180 \<lfloor>q + 1 / 2\<rfloor>)"
    "(\<forall>x. storedField examplePayload ''fallbackMinutes'' \<noteq> Some (JNum x)) \<longrightarrow>
        fallbackMinutes (loadSettings examplePayload) = fallbackMinutes DEFAULT_SETTINGS"
    "storedField examplePayload ''fullCompletionMinutesWeekend'' = Some (JNum PosInf) \<longrightarrow>
        fullCompletionMinutesWeekend (loadSettings examplePayload) = 180"
    "\<forall>q. storedField examplePayload ''fallbackMinutesWeekend'' = Some (JNum (Fin q)) \<longrightarrow>
        fallbackMinutesWeekend (loadSettings examplePayload) = max 1 (min 180 \<lfloor>q + 1 / 2\<rfloor>)"
    by (simp_all add: numericFields_def)
  have throws: "pinTestThrows exampleThrowingPin"
    by (simp add: pinTestThrows_def storedField_def exampleThrowingPin_def loadPin_def
        testFourDigits_def)
  have "alarmVolume (loadSettings examplePayload) = 100"
    using rows(1) [rule_format, OF stored(1)] rounds(1) by simp
  moreover have "fullCompletionMinutes (loadSettings examplePayload) = 1"
    using rows(2) [rule_format, OF stored(2)] rounds(2) by simp
  moreover have "fallbackMinutes (loadSettings examplePayload) = 15"
    using rows(3) stored(3) by (simp add: DEFAULT_SETTINGS_def)
  moreover have "fullCompletionMinutesWeekend (loadSettings examplePayload) = 180"
    using rows(4) [rule_format, OF stored(4)] by simp
  moreover have "fallbackMinutesWeekend (loadSettings examplePayload) = 31"
    using rows(5) [rule_format, OF stored(5)] rounds(3) by simp
  moreover from loadSettings_normalises [of NoItem]
  have "loadSettings NoItem = DEFAULT_SETTINGS"
    by blast
  moreover from loadSettings_normalises [of exampleThrowingPin] throws
  have "loadSettings exampleThrowingPin = DEFAULT_SETTINGS"
    by blast
  ultimately show ?thesis
    using pin by simp
qed

section \<open>Settings written by the settings page\<close>

text \<open>Whatever the settings page saves, the main page reads default weekend minutes from it.\<close>

lemma saveSettings_drops_weekend:
  "fullCompletionMinutesWeekend (loadSettings (saveSettings s)) = 45
   \<and> fallbackMinutesWeekend (loadSettings (saveSettings s)) = 15"
  by (simp add: saveSettings_def loadSettings_def loadNumber_def DEFAULT_SETTINGS_def
      split: sum.splits)

text \<open>
  C10. The claim asks that a write of the settings page leaves the other stored fields as
  they were. The stored example item has weekend minutes 90 and 30; after the settings page
  loads it and \<open>toggleCarry\<close> saves, the item has no weekend fields and the main page reads
  the defaults 45 and 15.
\<close>

theorem toggleCarry_loses_weekend_minutes:
  "fullCompletionMinutesWeekend (loadSettings exampleWeekendItem) = 90
   \<and> fallbackMinutesWeekend (loadSettings exampleWeekendItem) = 30
   \<and> fullCompletionMinutesWeekend
        (loadSettings (snd (toggleCarry True (SettingsPage_loadSettings exampleWeekendItem)))) = 45
   \<and> fallbackMinutesWeekend
        (loadSettings (snd (toggleCarry True (SettingsPage_loadSettings exampleWeekendItem)))) = 15"
  by code_simp

section \<open>Today's date key on the two pages\<close>

text \<open>On a device whose zone is that of Tokyo the two pages agree.\<close>

lemma todayKey_same_in_tokyo: "settingsPage_getTodayKey tokyoOffsetMinutes now = getTodayKey now"
  by (simp add: settingsPage_getTodayKey_def getTodayKey_def toDateKeyInTokyo_def)

text \<open>
  C7. The claim asks that both pages derive the same key for every instant, whatever the
  local zone. At 2026-02-14T15:30:00Z on a device in the zone UTC the settings page reads
  2026-02-14 from the local calendar fields while the main page formats 2026-02-15 in
  Tokyo.
\<close>

theorem todayKey_differs_outside_tokyo:
  "settingsPage_getTodayKey 0 1771083000000 = ''2026-02-14''
   \<and> getTodayKey 1771083000000 = ''2026-02-15''"
  by code_simp

end
